theory Spec2Isabelle
  imports Main "HOL-Library.Multiset"
begin

section \<open>Orbit: records, the sync record cache and its transform operators\<close>

text \<open>
  Naming: an Isabelle name cannot start with an underscore, so a leading underscore of
  the source is written as the prefix \<open>u_\<close> (\<open>_records\<close> is \<open>u_records\<close>,
  \<open>_update\<close> is \<open>u_update\<close>) and the task performers \<open>__update__\<close> and
  \<open>__pull__\<close> are \<open>uu_update\<close> and \<open>uu_pull\<close>. The field \<open>id\<close> of a
  record identity is \<open>id_r\<close> and that of a transform is \<open>id_t\<close>, since \<open>id\<close>
  is the identity function of HOL.
\<close>

subsection \<open>Errors\<close>

text \<open>
  Exceptions are values. \<open>Assertion\<close>, \<open>NotLoggedException\<close> and
  \<open>OutOfRangeException\<close> are the classes the source and the specification name;
  \<open>TypeError\<close> is what the JavaScript runtime throws when a property of
  \<open>undefined\<close> is read or a value that is not an array is iterated; \<open>Failure\<close>
  stands for any other value thrown by a listener or a handler.
\<close>

datatype error =
    Assertion string
  | TypeError
  | NotLoggedException string
  | OutOfRangeException int
  | Failure string

subsection \<open>Records\<close>

text \<open>
  \<open>RecordIdentity\<close> is \<open>{type, id}\<close>; a \<open>Record\<close> extends it with the optional
  members \<open>keys\<close>, \<open>attributes\<close> and \<open>relationships\<close>. An optional member
  that is \<open>undefined\<close> is \<open>None\<close>; a JavaScript object used as a dictionary is a
  map. The \<open>data\<close> member of a relationship is \<open>undefined\<close>, \<open>null\<close>, one
  identity or an array of identities. The type \<open>'v\<close> of the values of attributes
  holds the values other than \<open>undefined\<close>: a member whose value would be
  \<open>undefined\<close> is a member the map does not have.
\<close>

record record_identity =
  type :: string
  id_r :: string

datatype rel_data =
    DataUndefined
  | DataNull
  | DataOne record_identity
  | DataMany "record_identity list"

record 'v orbit_record = record_identity +
  keys :: "(string \<rightharpoonup> string) option"
  attributes :: "(string \<rightharpoonup> 'v) option"
  relationships :: "(string \<rightharpoonup> rel_data) option"

text \<open>
  Modelled from the spec: the helpers \<open>equalRecordIdentities\<close>,
  \<open>recordsInclude\<close> and \<open>cloneRecordIdentity\<close> of \<open>@orbit/records\<close> and
  \<open>clone\<close>, \<open>deepGet\<close> and \<open>deepSet\<close> of \<open>@orbit/utils\<close>, which the cache and
  its operators import, are missing. "Identity is \<open>(type, id)\<close>. Records are value
  objects; the cache clones on modify" (section 3); "shallow deep-set into
  \<open>keys[k]\<close> / \<open>attributes[a]\<close>; if the record does not exist, create a shell
  \<open>{type,id}\<close> and set" (section 4.3). \<open>deepGet(obj, path)\<close> reads the members
  named by the path one after the other and is \<open>undefined\<close> as soon as one is
  falsy; \<open>deepSet(obj, path, value)\<close> walks the path, creates an empty object
  where a member is \<open>undefined\<close>, and assigns the last member.
\<close>

text \<open>\<open>equalRecordIdentities\<close> compares type and id.\<close>

definition equalRecordIdentities ::
  "'a record_identity_scheme \<Rightarrow> 'b record_identity_scheme \<Rightarrow> bool" where
  "equalRecordIdentities a b \<longleftrightarrow> type a = type b \<and> id_r a = id_r b"

text \<open>\<open>recordsInclude(records, match)\<close>: some element has the identity of \<open>match\<close>.\<close>

fun recordsInclude :: "record_identity list \<Rightarrow> record_identity \<Rightarrow> bool" where
  "recordsInclude [] m = False"
| "recordsInclude (r # rs) m = (if equalRecordIdentities r m then True else recordsInclude rs m)"

text \<open>
  \<open>cloneRecordIdentity(identity)\<close> builds the record \<open>{type, id}\<close>, with no other
  member. \<open>clone\<close> is a deep copy: on values it is the identity.
\<close>

definition cloneRecordIdentity :: "'a record_identity_scheme \<Rightarrow> 'v orbit_record" where
  "cloneRecordIdentity i =
     \<lparr>type = type i, id_r = id_r i, keys = None, attributes = None, relationships = None\<rparr>"

definition clone :: "'a \<Rightarrow> 'a" where
  "clone x = x"

subsection \<open>Plain objects used as dictionaries\<close>

text \<open>
  The dictionaries of the cache and the members \<open>keys\<close>, \<open>attributes\<close> and
  \<open>relationships\<close> of a record are plain JavaScript objects, and a map of the model
  holds the members such an object owns. A plain object inherits from
  \<open>Object.prototype\<close>: the read \<open>obj[k]\<close> of a name that \<open>obj\<close> does not own is
  answered by \<open>Object.prototype\<close>, and for the names below (the members of
  \<open>Object.prototype\<close> in ECMAScript) the answer is an object of the host: a function
  such as \<open>Object\<close>, or \<open>Object.prototype\<close> itself for \<open>__proto__\<close>. It is
  truthy and is not a record. \<open>deepGet\<close> and \<open>deepSet\<close> index with \<open>obj[k]\<close>
  and make no test of ownership, so they reach those objects. The write
  \<open>obj[k] = v\<close> gives \<open>obj\<close> a member of its own, except for \<open>__proto__\<close>,
  where it calls a setter: the prototype of \<open>obj\<close> is replaced when \<open>v\<close> is an
  object, and nothing is written otherwise.
\<close>

definition Object_prototype :: "string list" where
  "Object_prototype =
     [''constructor'', ''hasOwnProperty'', ''isPrototypeOf'', ''propertyIsEnumerable'',
      ''toLocaleString'', ''toString'', ''valueOf'', ''__proto__'', ''__defineGetter__'',
      ''__defineSetter__'', ''__lookupGetter__'', ''__lookupSetter__'']"

definition inherited :: "string \<Rightarrow> bool" where
  "inherited k \<longleftrightarrow> k \<in> set Object_prototype"

text \<open>
  What a lookup in the cache finds: \<open>undefined\<close>, a stored record, or an object of
  the host reached through \<open>Object.prototype\<close>. \<open>Inherited [k]\<close> is the value a
  plain object answers for the name \<open>k\<close> it does not own; it is truthy.
  \<open>Inherited [k, k']\<close> is the member \<open>k'\<close> of that value, which may be anything
  the host holds there, \<open>undefined\<close> included.
\<close>

datatype 'v current =
    Undefined
  | Stored "'v orbit_record"
  | Inherited "string list"

text \<open>
  The state of the objects of the host is not part of the model. An operation that
  goes on to read or to write a member of such an object, or to call the setter of
  \<open>__proto__\<close>, has the outcome \<open>Beyond p\<close>, \<open>p\<close> naming the object or the
  member as above: the model does not say what the operation returns or leaves there.
  Otherwise an operation returns a value or throws.
\<close>

datatype 'a outcome =
    Returns 'a
  | Throws error
  | Beyond "string list"

text \<open>Sequencing: the next statement runs on the value the previous one returned.\<close>

fun and_then :: "'a outcome \<Rightarrow> ('a \<Rightarrow> 'b outcome) \<Rightarrow> 'b outcome" where
  "and_then (Returns x) f = f x"
| "and_then (Throws e) f = Throws e"
| "and_then (Beyond p) f = Beyond p"



text \<open>
  \<open>deepGet(record, ['relationships', relationship, 'data'])\<close> is \<open>undefined\<close> as soon
  as a step of the path is. A relationship object is modelled by its member
  \<open>data\<close>. When \<open>relationships\<close> does not own the name of the relationship and the
  name is one of \<open>Object.prototype\<close>, the second step finds an object of the host and
  the third reads its member \<open>data\<close>.
\<close>

definition deepGet_data :: "'v orbit_record \<Rightarrow> string \<Rightarrow> rel_data outcome" where
  "deepGet_data r rel =
     (case relationships r of
        None \<Rightarrow> Returns DataUndefined
      | Some rs \<Rightarrow>
          (case rs rel of
             Some d \<Rightarrow> Returns d
           | None \<Rightarrow> if inherited rel then Beyond [rel, ''data''] else Returns DataUndefined))"

text \<open>
  \<open>deepSet\<close> on the same path creates \<open>relationships\<close> and the relationship object
  when they are \<open>undefined\<close>, then assigns \<open>data\<close>. When \<open>relationships\<close> does not
  own the name and the name is one of \<open>Object.prototype\<close>, the step is not
  \<open>undefined\<close> and \<open>data\<close> is assigned on the object of the host.
\<close>

definition deepSet_data :: "'v orbit_record \<Rightarrow> string \<Rightarrow> rel_data \<Rightarrow> 'v orbit_record outcome" where
  "deepSet_data r rel d =
     (let rs = (case relationships r of None \<Rightarrow> Map.empty | Some rs \<Rightarrow> rs)
      in if rs rel = None \<and> inherited rel then Beyond [rel]
         else Returns (r\<lparr>relationships := Some (rs(rel \<mapsto> d))\<rparr>))"

subsection \<open>The record cache (\<open>ExampleSyncRecordCache\<close>)\<close>

text \<open>
  \<open>_records\<close> is a dictionary of dictionaries, type to id to record; the constructor
  gives it one empty dictionary for each model of the schema, and \<open>setRecordSync\<close>
  creates the dictionary of a type that has none. The key map of the cache is
  optional; its class is not among the sources, so its state is a type parameter and
  its method \<open>pushRecord\<close> is a parameter of the operators that call it. The second
  dictionary of the class, \<open>_inverseRelationships\<close>, is neither read nor written by
  the transform operators and is left out of the state.
\<close>

record ('v, 'km) cache =
  u_records :: "string \<rightharpoonup> (string \<rightharpoonup> 'v orbit_record)"
  keyMap :: "'km option"

text \<open>
  \<open>getRecordSync\<close>: \<open>deepGet(this._records, [identity.type, identity.id])\<close>. Each
  step indexes with the name and stops with \<open>undefined\<close> on a falsy value. A
  dictionary or a record that is owned is found first; a name that is not owned is
  answered by \<open>Object.prototype\<close>.
\<close>

definition getRecordSync ::
  "('v, 'km) cache \<Rightarrow> 'a record_identity_scheme \<Rightarrow> 'v current" where
  "getRecordSync c i =
     (case u_records c (type i) of
        Some dict \<Rightarrow>
          (case dict (id_r i) of
             Some r \<Rightarrow> Stored r
           | None \<Rightarrow> if inherited (id_r i) then Inherited [id_r i] else Undefined)
      | None \<Rightarrow> if inherited (type i) then Inherited [type i, id_r i] else Undefined)"

text \<open>
  \<open>setRecordSync\<close>: \<open>deepSet(this._records, [record.type, record.id], record)\<close>. The
  dictionary of the type is created when \<open>_records[type]\<close> is \<open>undefined\<close>; when
  \<open>_records\<close> does not own the type and the type is a name of \<open>Object.prototype\<close>,
  the record is assigned to a member of the object found there. The assignment of the
  record under its id gives the dictionary a member of its own, except at
  \<open>__proto__\<close>.
\<close>

definition setRecordSync :: "('v, 'km) cache \<Rightarrow> 'v orbit_record \<Rightarrow> ('v, 'km) cache outcome" where
  "setRecordSync c r =
     (case u_records c (type r) of
        None \<Rightarrow>
          if inherited (type r) then Beyond [type r]
          else if id_r r = ''__proto__'' then Beyond [id_r r]
          else Returns (c\<lparr>u_records := (u_records c)(type r \<mapsto> [id_r r \<mapsto> r])\<rparr>)
      | Some dict \<Rightarrow>
          if id_r r = ''__proto__'' then Beyond [id_r r]
          else Returns (c\<lparr>u_records := (u_records c)(type r \<mapsto> dict(id_r r \<mapsto> r))\<rparr>))"


subsection \<open>\<open>SyncTransformOperators\<close>\<close>



text \<open>
  \<open>addToRelatedRecords\<close>: \<open>deepGet(...) || []\<close> is the empty array for
  \<open>undefined\<close> and \<open>null\<close>. A single identity is an object, hence truthy, and
  \<open>recordsInclude\<close> cannot iterate it: the runtime throws, before anything is
  written.
\<close>

definition addToRelatedRecords ::
  "('v, 'km) cache \<Rightarrow> record_identity \<Rightarrow> string \<Rightarrow> record_identity
     \<Rightarrow> ('v orbit_record \<times> ('v, 'km) cache) outcome" where
  "addToRelatedRecords c op_record relationship relatedRecord =
     (case getRecordSync c op_record of
        Inherited p \<Rightarrow> Beyond p
      | currentRecord \<Rightarrow>
          (let record0 = (case currentRecord of
                            Stored cur \<Rightarrow> clone cur
                          | _ \<Rightarrow> cloneRecordIdentity op_record)
           in and_then (deepGet_data record0 relationship) (\<lambda>found.
                case found of
                  DataOne x \<Rightarrow> Throws TypeError
                | DataMany relatedRecords \<Rightarrow>
                    if \<not> recordsInclude relatedRecords relatedRecord then
                      and_then (deepSet_data record0 relationship
                                  (DataMany (relatedRecords @ [relatedRecord]))) (\<lambda>record1.
                      and_then (setRecordSync c record1) (\<lambda>c1.
                      Returns (record1, c1)))
                    else Returns (record0, c)
                | _ \<Rightarrow>
                    and_then (deepSet_data record0 relationship (DataMany [relatedRecord]))
                      (\<lambda>record1.
                    and_then (setRecordSync c record1) (\<lambda>c1.
                    Returns (record1, c1))))))"

text \<open>
  \<open>removeFromRelatedRecords\<close>: everything happens under \<open>if (currentRecord)\<close>; with
  no current record the function falls off its end and returns \<open>undefined\<close>. The
  filtered array is a new object, so \<open>deepSet\<close>, which compares the old and the new
  member with \<open>===\<close>, reports a change and the record is stored.
\<close>

definition removeFromRelatedRecords ::
  "('v, 'km) cache \<Rightarrow> record_identity \<Rightarrow> string \<Rightarrow> record_identity
     \<Rightarrow> ('v orbit_record option \<times> ('v, 'km) cache) outcome" where
  "removeFromRelatedRecords c op_record relationship relatedRecord =
     (case getRecordSync c op_record of
        Inherited p \<Rightarrow> Beyond p
      | Stored cur \<Rightarrow>
          (let record0 = clone cur
           in and_then (deepGet_data record0 relationship) (\<lambda>found.
                case found of
                  DataOne x \<Rightarrow> Throws TypeError
                | DataMany relatedRecords \<Rightarrow>
                    and_then (deepSet_data record0 relationship
                                (DataMany (filter (\<lambda>r. \<not> equalRecordIdentities r relatedRecord)
                                             relatedRecords))) (\<lambda>record1.
                    and_then (setRecordSync c record1) (\<lambda>c1.
                    Returns (Some record1, c1)))
                | _ \<Rightarrow> Returns (Some record0, c)))
      | Undefined \<Rightarrow> Returns (None, c))"

text \<open>
  The array \<open>deepGet(record, ['relationships', relationship, 'data']) || []\<close> that
  \<open>addToRelatedRecords\<close> starts from, read off the cache: the identities the
  record stored under \<open>r\<close> lists in the relationship, and none when no record is
  stored or the member is \<open>undefined\<close> or \<open>null\<close>.
\<close>

definition related_before ::
  "('v, 'km) cache \<Rightarrow> record_identity \<Rightarrow> string \<Rightarrow> record_identity list" where
  "related_before c r rel =
     (case getRecordSync c r of
        Stored cur \<Rightarrow> (case deepGet_data cur rel of Returns (DataMany xs) \<Rightarrow> xs | _ \<Rightarrow> [])
      | _ \<Rightarrow> [])"
section \<open>Orbit: sources and the request flow\<close>

subsection \<open>Transforms, options and responses\<close>

text \<open>
  \<open>RequestOptions\<close> with the two members the request flow reads; a member that is
  \<open>undefined\<close> is \<open>None\<close>, and only \<open>true\<close> is truthy.
\<close>

record request_options =
  fullResponse :: "bool option"
  includeSources :: "bool option"

definition truthy :: "bool option \<Rightarrow> bool" where
  "truthy b \<longleftrightarrow> b = Some True"

text \<open>\<open>Transform\<close>: \<open>{ id, operations, options? }\<close>.\<close>

record 'o transform =
  id_t :: string
  operations :: "'o list"
  options :: "request_options option"

text \<open>
  \<open>TransformOrOperations\<close>, the first argument of \<open>update\<close> and of
  \<open>buildTransform\<close>: a transform, or operations from which one is built.
\<close>

datatype 'o transform_or_operations =
    TransformInput "'o transform"
  | OperationsInput "'o list"

text \<open>
  \<open>FullResponse\<close>: \<open>{ data?, details?, transforms?, sources? }\<close>. The type of
  \<open>sources\<close> and that of a named full response (what a \<open>before...\<close> listener
  returns) are parameters; they are only passed through.
\<close>

record ('d, 'dt, 'o, 'src) full_response =
  data :: "'d option"
  details :: "'dt option"
  transforms :: "'o transform list option"
  sources :: "'src option"

text \<open>\<open>ResponseHints\<close>: \<open>{ data?, details? }\<close>; \<open>{}\<close> is \<open>no_hints\<close>.\<close>

record ('d, 'dt) response_hints =
  data_h :: "'d option"
  details_h :: "'dt option"

definition no_hints :: "('d, 'dt) response_hints" where
  "no_hints = \<lparr>data_h = None, details_h = None\<rparr>"

text \<open>
  What the public \<open>update\<close> and \<open>pull\<close> resolve with: \<open>response.data\<close>, the
  whole full response, or an array of transforms.
\<close>

datatype ('d, 'dt, 'o, 'src) data_or_full_response =
    Data "'d option"
  | Full "('d, 'dt, 'o, 'src) full_response"
  | Transforms "'o transform list"

subsection \<open>The transform log\<close>

text \<open>
  The class \<open>TransformLog\<close> is not among the sources. The specification (section 3)
  gives it as the ordered sequence of transform ids with a membership test; the log is
  modelled as the list of its ids, oldest first, and each of its operations from the
  words of the specification.
\<close>

text \<open>
  Modelled from the spec: \<open>TransformLog.contains\<close> is missing;
  "\<open>contains(id) \<rightarrow> bool\<close>", the membership test.
\<close>

definition log_contains :: "string list \<Rightarrow> string \<Rightarrow> bool" where
  "log_contains log tid \<longleftrightarrow> tid \<in> set log"

text \<open>
  Modelled from the spec: \<open>TransformLog.head\<close> is missing; "\<open>head \<rightarrow> id?\<close>", the
  id appended last, \<open>undefined\<close> for the empty log.
\<close>

definition log_head :: "string list \<Rightarrow> string option" where
  "log_head log = (if log = [] then None else Some (last log))"

text \<open>
  Modelled from the spec: \<open>TransformLog.entries\<close> is missing;
  "\<open>entries \<rightarrow> id[]\<close>", all ids in order.
\<close>

definition log_entries :: "string list \<Rightarrow> string list" where
  "log_entries log = log"

text \<open>
  Modelled from the spec: \<open>TransformLog.append\<close> is missing; "\<open>append(id)\<close>" on
  an "ordered append-only sequence".
\<close>

definition log_append :: "string list \<Rightarrow> string \<Rightarrow> string list" where
  "log_append log tid = log @ [tid]"

text \<open>
  Modelled from the spec: \<open>TransformLog.after\<close> is missing;
  "\<open>after(id) \<rightarrow> id[]\<close> (strictly after)". For an id that is not logged the model
  raises the \<open>NotLoggedException\<close> of section 7; no statement below depends on that
  case.
\<close>

definition log_after :: "string list \<Rightarrow> string \<Rightarrow> error + string list" where
  "log_after log tid =
     (if log_contains log tid then Inr (drop 1 (dropWhile (\<lambda>x. x \<noteq> tid) log))
      else Inl (NotLoggedException tid))"


subsection \<open>The source: its log and the events it emits\<close>

text \<open>
  An emitted event is its name with its arguments, as in
  \<open>settleInSeries(this, 'update', transform, fullResponse)\<close>. The hints object of a
  \<open>before...\<close> event is passed by reference and is written \<open>ArgHints\<close>.
\<close>

datatype ('o, 'q, 'd, 'dt, 'src) event_arg =
    ArgTransform "'o transform"
  | ArgQuery 'q
  | ArgHints
  | ArgResponse "('d, 'dt, 'o, 'src) full_response"
  | ArgError error

type_synonym ('o, 'q, 'd, 'dt, 'src) event = "string \<times> ('o, 'q, 'd, 'dt, 'src) event_arg list"

text \<open>
  The state of a \<open>Source\<close> as the request flow sees it: the transform log, and the
  events emitted so far, oldest first (a history of the calls of \<open>settleInSeries\<close>
  and \<open>fulfillInSeries\<close>; the source itself keeps no such list). A source is taken
  as activated: \<open>await this.activated\<close> returns at once.
\<close>

record ('o, 'q, 'd, 'dt, 'src) source =
  transformLog :: "string list"
  emitted :: "('o, 'q, 'd, 'dt, 'src) event list"

definition emit ::
  "string \<Rightarrow> ('o, 'q, 'd, 'dt, 'src) event_arg list
     \<Rightarrow> ('o, 'q, 'd, 'dt, 'src, 'z) source_scheme \<Rightarrow> ('o, 'q, 'd, 'dt, 'src, 'z) source_scheme" where
  "emit name args s = s\<lparr>emitted := emitted s @ [(name, args)]\<rparr>"

text \<open>
  Modelled from the spec: \<open>settleInSeries\<close> (of \<open>@orbit/core\<close>) is missing.
  Settle-in-series is "fire-and-wait; errors in listeners are swallowed after
  notification" (section 4.1): the call fires the event, waits for its listeners and
  returns, whatever they return or throw. Listeners are taken not to touch the source's
  own state, so the call is the emission alone.
\<close>

definition settleInSeries ::
  "string \<Rightarrow> ('o, 'q, 'd, 'dt, 'src) event_arg list
     \<Rightarrow> ('o, 'q, 'd, 'dt, 'src, 'z) source_scheme \<Rightarrow> ('o, 'q, 'd, 'dt, 'src, 'z) source_scheme" where
  "settleInSeries name args s = emit name args s"

text \<open>
  Modelled from the spec: \<open>fulfillInSeries\<close> (of \<open>@orbit/core\<close>) is missing.
  Fulfill-in-series is "fire-and-collect; listeners may return values/promises that
  the caller uses as hints; rejection propagates and aborts the caller", and "order of
  invocation matches registration" (section 4.1). A listener of a \<open>before...\<close> event
  receives the request and the hints object, which it may change, and returns a named
  full response or \<open>undefined\<close>, or throws. The function is given the listeners in
  registration order and returns what they returned, with the hints as they leave
  them, or the error of the first listener that throws. The emission itself is
  recorded by the caller, with \<open>emit\<close>.
\<close>

fun fulfillInSeries ::
  "('req \<Rightarrow> 'h \<Rightarrow> error + 'n option \<times> 'h) list \<Rightarrow> 'req \<Rightarrow> 'h \<Rightarrow> error + 'n option list \<times> 'h" where
  "fulfillInSeries [] req h = Inr ([], h)"
| "fulfillInSeries (l # ls) req h =
     (case l req h of
        Inl e \<Rightarrow> Inl e
      | Inr (r, h') \<Rightarrow>
          (case fulfillInSeries ls req h' of
             Inl e \<Rightarrow> Inl e
           | Inr (rs, h'') \<Rightarrow> Inr (r # rs, h'')))"

text \<open>
  Modelled from the spec: \<open>Source.transformed\<close> is not among the sources. It
  "appends each [transform] to the log (skipping those already contained) and emits
  \<open>transform\<close> via settle-in-series" (section 4.5, step 7).
\<close>

fun transformed ::
  "'o transform list \<Rightarrow> ('o, 'q, 'd, 'dt, 'src, 'z) source_scheme
     \<Rightarrow> ('o, 'q, 'd, 'dt, 'src, 'z) source_scheme" where
  "transformed [] s = s"
| "transformed (t # ts) s =
     transformed ts
       (if log_contains (transformLog s) (id_t t) then s
        else settleInSeries ''transform'' [ArgTransform t]
               (s\<lparr>transformLog := log_append (transformLog s) (id_t t)\<rparr>))"

subsection \<open>\<open>@updatable\<close>: \<open>update\<close> and \<open>__update__\<close>\<close>

text \<open>
  \<open>__update__\<close>, the performer of an \<open>update\<close> task. Its parameters are the
  listeners of \<open>beforeUpdate\<close>, \<open>mapNamedFullResponses\<close> (not among the sources)
  and the handler \<open>_update\<close> of the source, which may change the source and may
  throw. The body of \<open>try\<close> stops at the first error; \<open>catch\<close> emits
  \<open>updateFail\<close> and throws the error again.
\<close>

definition uu_update ::
  "('o transform \<Rightarrow> ('d, 'dt) response_hints \<Rightarrow> error + 'n option \<times> ('d, 'dt) response_hints) list
   \<Rightarrow> ('n option list \<Rightarrow> 'src)
   \<Rightarrow> ('o transform \<Rightarrow> ('d, 'dt) response_hints \<Rightarrow> ('o, 'q, 'd, 'dt, 'src, 'z) source_scheme
        \<Rightarrow> (error + ('d, 'dt, 'o, 'src) full_response) \<times> ('o, 'q, 'd, 'dt, 'src, 'z) source_scheme)
   \<Rightarrow> 'o transform \<Rightarrow> ('o, 'q, 'd, 'dt, 'src, 'z) source_scheme
   \<Rightarrow> (error + ('d, 'dt, 'o, 'src) full_response) \<times> ('o, 'q, 'd, 'dt, 'src, 'z) source_scheme" where
  "uu_update beforeUpdate mapNamedFullResponses u_update transform s =
     (if log_contains (transformLog s) (id_t transform)
      then (Inr \<lparr>data = None, details = None, transforms = Some [], sources = None\<rparr>, s)
      else
        (let s1 = emit ''beforeUpdate'' [ArgTransform transform, ArgHints] s
         in case fulfillInSeries beforeUpdate transform no_hints of
              Inl error \<Rightarrow>
                (Inl error, settleInSeries ''updateFail'' [ArgTransform transform, ArgError error] s1)
            | Inr (otherResponses, hints) \<Rightarrow>
                (case u_update transform hints s1 of
                   (Inl error, s2) \<Rightarrow>
                     (Inl error,
                      settleInSeries ''updateFail'' [ArgTransform transform, ArgError error] s2)
                 | (Inr response, s2) \<Rightarrow>
                     (let fullResponse =
                            (if (case options transform of
                                   None \<Rightarrow> False
                                 | Some opts \<Rightarrow> truthy (includeSources opts))
                             then response\<lparr>sources := Some (mapNamedFullResponses otherResponses)\<rparr>
                             else response);
                          s3 = (case transforms fullResponse of
                                  None \<Rightarrow> s2
                                | Some ts \<Rightarrow> if length ts > 0 then transformed ts s2 else s2);
                          s4 = settleInSeries ''update''
                                 [ArgTransform transform, ArgResponse fullResponse] s3
                      in (Inr fullResponse, s4)))))"

text \<open>
  The public \<open>update\<close>. \<open>buildTransform\<close> (not among the sources) is a parameter,
  applied to the three arguments of \<open>update\<close>; so is \<open>_enqueueRequest\<close>, which
  takes the kind of the task and the transform and resolves with the full response of
  the task or rejects with its error.
\<close>

definition update ::
  "('o transform_or_operations \<Rightarrow> request_options option \<Rightarrow> string option \<Rightarrow> 'o transform)
   \<Rightarrow> (string \<Rightarrow> 'o transform \<Rightarrow> ('o, 'q, 'd, 'dt, 'src, 'z) source_scheme
        \<Rightarrow> (error + ('d, 'dt, 'o, 'src) full_response) \<times> ('o, 'q, 'd, 'dt, 'src, 'z) source_scheme)
   \<Rightarrow> 'o transform_or_operations \<Rightarrow> request_options option \<Rightarrow> string option
   \<Rightarrow> ('o, 'q, 'd, 'dt, 'src, 'z) source_scheme
   \<Rightarrow> (error + ('d, 'dt, 'o, 'src) data_or_full_response) \<times> ('o, 'q, 'd, 'dt, 'src, 'z) source_scheme" where
  "update buildTransform enqueueRequest transformOrOperations opts tid s =
     (let transform = buildTransform transformOrOperations opts tid
      in if log_contains (transformLog s) (id_t transform) then
           (let ts = []
            in (Inr (if (case opts of None \<Rightarrow> False | Some ro \<Rightarrow> truthy (fullResponse ro))
                     then Full \<lparr>data = None, details = None, transforms = Some ts, sources = None\<rparr>
                     else Transforms ts), s))
         else
           (case enqueueRequest ''update'' transform s of
              (Inl error, s') \<Rightarrow> (Inl error, s')
            | (Inr response, s') \<Rightarrow>
                (Inr (if (case opts of None \<Rightarrow> False | Some ro \<Rightarrow> truthy (fullResponse ro))
                      then Full response
                      else Data (data response)), s')))"

subsection \<open>\<open>@pullable\<close>: \<open>pull\<close> and \<open>__pull__\<close>\<close>

text \<open>
  \<open>__pull__\<close>, the performer of a \<open>pull\<close> task, with the listeners of
  \<open>beforePull\<close>, \<open>mapNamedFullResponses\<close> and the handler \<open>_pull\<close> as
  parameters.
\<close>

definition uu_pull ::
  "('q \<Rightarrow> ('d, 'dt) response_hints \<Rightarrow> error + 'n option \<times> ('d, 'dt) response_hints) list
   \<Rightarrow> ('n option list \<Rightarrow> 'src)
   \<Rightarrow> ('q \<Rightarrow> ('d, 'dt) response_hints \<Rightarrow> ('o, 'q, 'd, 'dt, 'src, 'z) source_scheme
        \<Rightarrow> (error + ('d, 'dt, 'o, 'src) full_response) \<times> ('o, 'q, 'd, 'dt, 'src, 'z) source_scheme)
   \<Rightarrow> 'q \<Rightarrow> ('o, 'q, 'd, 'dt, 'src, 'z) source_scheme
   \<Rightarrow> (error + ('d, 'dt, 'o, 'src) full_response) \<times> ('o, 'q, 'd, 'dt, 'src, 'z) source_scheme" where
  "uu_pull beforePull mapNamedFullResponses u_pull query s =
     (let s1 = emit ''beforePull'' [ArgQuery query, ArgHints] s
      in case fulfillInSeries beforePull query no_hints of
           Inl error \<Rightarrow> (Inl error, settleInSeries ''pullFail'' [ArgQuery query, ArgError error] s1)
         | Inr (otherResponses, hints) \<Rightarrow>
             (case u_pull query hints s1 of
                (Inl error, s2) \<Rightarrow>
                  (Inl error, settleInSeries ''pullFail'' [ArgQuery query, ArgError error] s2)
              | (Inr response, s2) \<Rightarrow>
                  (let fullResponse =
                         (if length otherResponses > 0
                          then response\<lparr>sources := Some (mapNamedFullResponses otherResponses)\<rparr>
                          else response);
                       s3 = (case transforms fullResponse of
                               None \<Rightarrow> s2
                             | Some ts \<Rightarrow> if length ts > 0 then transformed ts s2 else s2);
                       s4 = settleInSeries ''pull'' [ArgQuery query, ArgResponse fullResponse] s3
                   in (Inr fullResponse, s4))))"

text \<open>
  The public \<open>pull\<close>; \<open>buildQuery\<close> and \<open>_enqueueRequest\<close> are parameters.
  \<open>response.transforms || []\<close> is the empty array when the member is
  \<open>undefined\<close>.
\<close>

definition pull ::
  "('qe \<Rightarrow> request_options option \<Rightarrow> string option \<Rightarrow> 'q)
   \<Rightarrow> (string \<Rightarrow> 'q \<Rightarrow> 's \<Rightarrow> (error + ('d, 'dt, 'o, 'src) full_response) \<times> 's)
   \<Rightarrow> 'qe \<Rightarrow> request_options option \<Rightarrow> string option \<Rightarrow> 's
   \<Rightarrow> (error + ('d, 'dt, 'o, 'src) data_or_full_response) \<times> 's" where
  "pull buildQuery enqueueRequest queryOrExpressions opts qid s =
     (let query = buildQuery queryOrExpressions opts qid
      in case enqueueRequest ''pull'' query s of
           (Inl error, s') \<Rightarrow> (Inl error, s')
         | (Inr response, s') \<Rightarrow>
             (Inr (if (case opts of None \<Rightarrow> False | Some ro \<Rightarrow> truthy (fullResponse ro))
                   then Full response
                   else Transforms (case transforms response of None \<Rightarrow> [] | Some ts \<Rightarrow> ts)), s'))"

text \<open>
  Modelled from the spec: \<open>Source._enqueueRequest\<close> and the task queue are not
  among the sources. "At most one task executes at a time"; the queue "resolves
  \<open>kind\<close> against a performer map supplied by the owner, invokes the performer, and
  resolves the enqueuer's promise with its result" (section 4.2). On a queue with no
  task waiting, enqueueing a task is running its performer; \<open>performer\<close> is the
  method the kind resolves to (\<open>__update__\<close> for \<open>update\<close>).
\<close>

definition u_enqueueRequest ::
  "('req \<Rightarrow> 's \<Rightarrow> (error + 'r) \<times> 's) \<Rightarrow> string \<Rightarrow> 'req \<Rightarrow> 's \<Rightarrow> (error + 'r) \<times> 's" where
  "u_enqueueRequest performer kind payload s = performer payload s"

section \<open>Orbit: the memory source\<close>

subsection \<open>State\<close>

text \<open>
  \<open>MemorySource\<close> extends \<open>Source\<close> with its cache, its base source (when it is a
  fork), the fork point and the two dictionaries \<open>_transforms\<close> and
  \<open>_transformInverses\<close>, keyed by transform id. \<open>_base\<close> refers to the base source
  object; the member holds the state of that object as the call under study finds it
  (\<open>rebase\<close> and \<open>merge\<close> only read the other source). The type of the base's
  state is a parameter, instantiated by the memory source type again.

  \<open>MemoryCache\<close> is not among the sources: the cache state is a type parameter, and
  \<open>cache.patch(operations)\<close> and \<open>cache.update(transform, {fullResponse: true})\<close>
  are parameters of the functions that call them. \<open>cache_patch\<close> maps the cache to
  the patched cache; \<open>cache_update\<close> returns \<open>data\<close> and
  \<open>details?.inverseOperations\<close> (\<open>None\<close> when \<open>details\<close> or the member is
  \<open>undefined\<close>) with the updated cache. Both are taken to return normally.
\<close>

record ('o, 'q, 'd, 'dt, 'src, 'c, 'b) memory_source = "('o, 'q, 'd, 'dt, 'src) source" +
  u_cache :: 'c
  u_base :: "'b option"
  u_forkPoint :: "string option"
  u_transforms :: "string \<rightharpoonup> 'o transform"
  u_transformInverses :: "string \<rightharpoonup> 'o list"

subsection \<open>Protected methods\<close>

text \<open>
  \<open>_applyTransform\<close>: update the cache, then record the transform and its inverse
  operations (\<open>details?.inverseOperations || []\<close>) under the transform's id.
\<close>

definition u_applyTransform ::
  "('o transform \<Rightarrow> 'c \<Rightarrow> ('d option \<times> 'o list option) \<times> 'c) \<Rightarrow> 'o transform
   \<Rightarrow> ('o, 'q, 'd, 'dt, 'src, 'c, 'b, 'z) memory_source_scheme
   \<Rightarrow> 'd option \<times> ('o, 'q, 'd, 'dt, 'src, 'c, 'b, 'z) memory_source_scheme" where
  "u_applyTransform cache_update transform s =
     (case cache_update transform (u_cache s) of
        ((result, inverseOperations), c') \<Rightarrow>
          (result,
           s\<lparr>u_cache := c',
             u_transforms := (u_transforms s)(id_t transform \<mapsto> transform),
             u_transformInverses := (u_transformInverses s)
               (id_t transform \<mapsto> (case inverseOperations of None \<Rightarrow> [] | Some ops \<Rightarrow> ops))\<rparr>))"

text \<open>\<open>_clearTransformFromHistory\<close>: delete the id from both dictionaries.\<close>

definition u_clearTransformFromHistory ::
  "string \<Rightarrow> ('o, 'q, 'd, 'dt, 'src, 'c, 'b, 'z) memory_source_scheme
   \<Rightarrow> ('o, 'q, 'd, 'dt, 'src, 'c, 'b, 'z) memory_source_scheme" where
  "u_clearTransformFromHistory transformId s =
     s\<lparr>u_transforms := (u_transforms s)(transformId := None),
       u_transformInverses := (u_transformInverses s)(transformId := None)\<rparr>"

text \<open>
  The body shared by the callbacks of \<open>rebase\<close> and \<open>_logRolledback\<close>: patch the
  cache with the inverse operations recorded for the id, if any are recorded (an empty
  array is truthy and is patched too), then clear the id from the history.
\<close>

definition undo_transform ::
  "('o list \<Rightarrow> 'c \<Rightarrow> 'c) \<Rightarrow> string \<Rightarrow> ('o, 'q, 'd, 'dt, 'src, 'c, 'b, 'z) memory_source_scheme
   \<Rightarrow> ('o, 'q, 'd, 'dt, 'src, 'c, 'b, 'z) memory_source_scheme" where
  "undo_transform cache_patch tid s =
     u_clearTransformFromHistory tid
       (case u_transformInverses s tid of
          None \<Rightarrow> s
        | Some inverseOperations \<Rightarrow> s\<lparr>u_cache := cache_patch inverseOperations (u_cache s)\<rparr>)"


subsection \<open>Public methods\<close>

text \<open>
  \<open>allTransforms\<close> and \<open>transformsSince\<close> map the ids of the log through
  \<open>_transforms\<close>; an id with no stored transform gives \<open>undefined\<close> (\<open>None\<close>)
  at its place in the array.
\<close>

definition allTransforms ::
  "('o, 'q, 'd, 'dt, 'src, 'c, 'b, 'z) memory_source_scheme \<Rightarrow> 'o transform option list" where
  "allTransforms s = map (u_transforms s) (log_entries (transformLog s))"

definition transformsSince ::
  "('o, 'q, 'd, 'dt, 'src, 'c, 'b, 'z) memory_source_scheme \<Rightarrow> string
   \<Rightarrow> error + 'o transform option list" where
  "transformsSince s transformId =
     (case log_after (transformLog s) transformId of
        Inl e \<Rightarrow> Inl e
      | Inr ids \<Rightarrow> Inr (map (u_transforms s) ids))"


text \<open>
  \<open>array.forEach(callback)\<close> with a callback that may throw: the loop stops at the
  first exception, with the state as the earlier calls left it.
\<close>

fun forEach :: "('a \<Rightarrow> 's \<Rightarrow> error option \<times> 's) \<Rightarrow> 'a list \<Rightarrow> 's \<Rightarrow> error option \<times> 's" where
  "forEach f [] s = (None, s)"
| "forEach f (x # xs) s =
     (case f x s of
        (Some e, s') \<Rightarrow> (Some e, s')
      | (None, s') \<Rightarrow> forEach f xs s')"

text \<open>
  The callbacks of the three loops of \<open>rebase\<close>. An element of the array that is
  \<open>undefined\<close> makes the callback throw when it reads \<open>transform.id\<close>.
\<close>

definition rebase_undo ::
  "('o list \<Rightarrow> 'c \<Rightarrow> 'c) \<Rightarrow> 'o transform option
   \<Rightarrow> ('o, 'q, 'd, 'dt, 'src, 'c, 'b, 'z) memory_source_scheme
   \<Rightarrow> error option \<times> ('o, 'q, 'd, 'dt, 'src, 'c, 'b, 'z) memory_source_scheme" where
  "rebase_undo cache_patch t s =
     (case t of
        None \<Rightarrow> (Some TypeError, s)
      | Some transform \<Rightarrow> (None, undo_transform cache_patch (id_t transform) s))"

definition rebase_apply ::
  "('o transform \<Rightarrow> 'c \<Rightarrow> ('d option \<times> 'o list option) \<times> 'c) \<Rightarrow> 'o transform option
   \<Rightarrow> ('o, 'q, 'd, 'dt, 'src, 'c, 'b, 'z) memory_source_scheme
   \<Rightarrow> error option \<times> ('o, 'q, 'd, 'dt, 'src, 'c, 'b, 'z) memory_source_scheme" where
  "rebase_apply cache_update t s =
     (case t of
        None \<Rightarrow> (Some TypeError, s)
      | Some transform \<Rightarrow> (None, snd (u_applyTransform cache_update transform s)))"

text \<open>
  The \<open>baseTransforms\<close> of \<open>rebase\<close>: all transforms of the base when the fork
  point is \<open>undefined\<close> (the base was empty at the fork), those since the fork point
  otherwise.
\<close>

definition baseTransforms_of ::
  "string option \<Rightarrow> ('o, 'q, 'd, 'dt, 'src, 'c, 'bb, 'y) memory_source_scheme
   \<Rightarrow> error + 'o transform option list" where
  "baseTransforms_of forkPoint base =
     (case forkPoint of
        None \<Rightarrow> Inr (allTransforms base)
      | Some fp \<Rightarrow> transformsSince base fp)"

text \<open>
  \<open>rebase\<close>. \<open>localTransforms.reverse()\<close> reverses the array in place and returns
  it: from that statement on the array \<open>localTransforms\<close> is the reversed one, which
  the model calls \<open>reversed\<close>. The first loop and the last loop both iterate it; the
  loop in between iterates \<open>baseTransforms\<close>.
\<close>

definition rebase ::
  "('o list \<Rightarrow> 'c \<Rightarrow> 'c) \<Rightarrow> ('o transform \<Rightarrow> 'c \<Rightarrow> ('d option \<times> 'o list option) \<times> 'c)
   \<Rightarrow> ('o, 'q, 'd, 'dt, 'src, 'c, ('o, 'q, 'd, 'dt, 'src, 'c, 'bb, 'y) memory_source_scheme, 'z)
        memory_source_scheme
   \<Rightarrow> error option
      \<times> ('o, 'q, 'd, 'dt, 'src, 'c, ('o, 'q, 'd, 'dt, 'src, 'c, 'bb, 'y) memory_source_scheme, 'z)
        memory_source_scheme" where
  "rebase cache_patch cache_update s =
     (let base = u_base s; forkPoint = u_forkPoint s
      in case base of
           None \<Rightarrow> (Some (Assertion ''A `base` source must be defined for `rebase` to work''), s)
         | Some b \<Rightarrow>
             (case baseTransforms_of forkPoint b of
                Inl e \<Rightarrow> (Some e, s)
              | Inr baseTransforms \<Rightarrow>
                  if length baseTransforms > 0 then
                    (let localTransforms = allTransforms s;
                         reversed = rev localTransforms
                     in case forEach (rebase_undo cache_patch) reversed s of
                          (Some e, s1) \<Rightarrow> (Some e, s1)
                        | (None, s1) \<Rightarrow>
                            (case forEach (rebase_apply cache_update) baseTransforms s1 of
                               (Some e, s2) \<Rightarrow> (Some e, s2)
                             | (None, s2) \<Rightarrow>
                                 (case forEach (rebase_apply cache_update) reversed s2 of
                                    (Some e, s3) \<Rightarrow> (Some e, s3)
                                  | (None, s3) \<Rightarrow>
                                      (None, s3\<lparr>u_forkPoint := log_head (transformLog b)\<rparr>))))
                  else (None, s)))"

text \<open>
  \<open>merge(forkedSource, options)\<close>. \<open>if (options.sinceTransformId)\<close> is false for
  \<open>undefined\<close> and for the empty string. The loop pushes the operations of each
  transform onto \<open>ops\<close> and throws when it reads \<open>t.operations\<close> of
  \<open>undefined\<close>. \<open>coalesceRecordOperations\<close>, \<open>buildTransform\<close> and the queue
  behind \<open>this.update\<close> are parameters.
\<close>

record merge_options =
  coalesce :: "bool option"
  sinceTransformId :: "string option"
  transformOptions :: "request_options option"

fun merge_ops :: "'o transform option list \<Rightarrow> 'o list \<Rightarrow> error + 'o list" where
  "merge_ops [] ops = Inr ops"
| "merge_ops (None # ts) ops = Inl TypeError"
| "merge_ops (Some t # ts) ops = merge_ops ts (ops @ operations t)"

definition merge ::
  "('o list \<Rightarrow> 'o list)
   \<Rightarrow> ('o transform_or_operations \<Rightarrow> request_options option \<Rightarrow> string option \<Rightarrow> 'o transform)
   \<Rightarrow> (string \<Rightarrow> 'o transform \<Rightarrow> ('o, 'q, 'd, 'dt, 'src, 'z) source_scheme
        \<Rightarrow> (error + ('d, 'dt, 'o, 'src) full_response) \<times> ('o, 'q, 'd, 'dt, 'src, 'z) source_scheme)
   \<Rightarrow> ('o, 'q2, 'd2, 'dt2, 'src2, 'c2, 'b2, 'z2) memory_source_scheme \<Rightarrow> merge_options
   \<Rightarrow> ('o, 'q, 'd, 'dt, 'src, 'z) source_scheme
   \<Rightarrow> (error + ('d, 'dt, 'o, 'src) data_or_full_response) \<times> ('o, 'q, 'd, 'dt, 'src, 'z) source_scheme" where
  "merge coalesceRecordOperations buildTransform enqueueRequest forkedSource opts s =
     (case (case sinceTransformId opts of
              None \<Rightarrow> Inr (allTransforms forkedSource)
            | Some since \<Rightarrow>
                if since \<noteq> [] then transformsSince forkedSource since
                else Inr (allTransforms forkedSource)) of
        Inl e \<Rightarrow> (Inl e, s)
      | Inr ts \<Rightarrow>
          (case merge_ops ts [] of
             Inl e \<Rightarrow> (Inl e, s)
           | Inr ops0 \<Rightarrow>
               (let ops = (if coalesce opts \<noteq> Some False then coalesceRecordOperations ops0
                           else ops0);
                    reducedTransform = buildTransform (OperationsInput ops) (transformOptions opts) None
                in update buildTransform enqueueRequest (TransformInput reducedTransform) None None s)))"

subsection \<open>The syncable interface of the memory source\<close>

text \<open>
  \<open>_sync\<close>: a transform that is not logged is applied to the cache and reported
  through \<open>transformed\<close>.
\<close>

definition u_sync ::
  "('o transform \<Rightarrow> 'c \<Rightarrow> ('d option \<times> 'o list option) \<times> 'c) \<Rightarrow> 'o transform
   \<Rightarrow> ('o, 'q, 'd, 'dt, 'src, 'c, 'b, 'z) memory_source_scheme
   \<Rightarrow> error option \<times> ('o, 'q, 'd, 'dt, 'src, 'c, 'b, 'z) memory_source_scheme" where
  "u_sync cache_update transform s =
     (if \<not> log_contains (transformLog s) (id_t transform)
      then (None, transformed [transform] (snd (u_applyTransform cache_update transform s)))
      else (None, s))"

text \<open>
  Modelled from the spec: the \<open>@syncable\<close> decorator is not among the sources. Its
  performer follows the common request flow of section 4.5, steps 5 to 10, with the
  events \<open>beforeSync\<close>, \<open>sync\<close> and \<open>syncFail\<close> and the handler
  \<open>_sync(transform)\<close>, which returns nothing.
\<close>

definition uu_sync ::
  "('o transform \<Rightarrow> unit \<Rightarrow> error + 'n option \<times> unit) list
   \<Rightarrow> ('o transform \<Rightarrow> ('o, 'q, 'd, 'dt, 'src, 'z) source_scheme
        \<Rightarrow> error option \<times> ('o, 'q, 'd, 'dt, 'src, 'z) source_scheme)
   \<Rightarrow> 'o transform \<Rightarrow> ('o, 'q, 'd, 'dt, 'src, 'z) source_scheme
   \<Rightarrow> error option \<times> ('o, 'q, 'd, 'dt, 'src, 'z) source_scheme" where
  "uu_sync beforeSync handler transform s =
     (let s1 = emit ''beforeSync'' [ArgTransform transform] s
      in case fulfillInSeries beforeSync transform () of
           Inl error \<Rightarrow>
             (Some error, settleInSeries ''syncFail'' [ArgTransform transform, ArgError error] s1)
         | Inr others \<Rightarrow>
             (case handler transform s1 of
                (Some error, s2) \<Rightarrow>
                  (Some error,
                   settleInSeries ''syncFail'' [ArgTransform transform, ArgError error] s2)
              | (None, s2) \<Rightarrow> (None, settleInSeries ''sync'' [ArgTransform transform] s2)))"

section \<open>Auxiliary definitions for the statements\<close>

fun newly_logged :: "string list \<Rightarrow> 'o transform list \<Rightarrow> 'o transform list" where
  "newly_logged log [] = []"
| "newly_logged log (t # ts) =
     (if log_contains log (id_t t) then newly_logged log ts
      else t # newly_logged (log_append log (id_t t)) ts)"

definition produced :: "('d, 'dt, 'o, 'src) full_response \<Rightarrow> 'o transform list" where
  "produced r = (case transforms r of None \<Rightarrow> [] | Some ts \<Rightarrow> ts)"

definition with_sources ::
  "bool \<Rightarrow> 'src \<Rightarrow> ('d, 'dt, 'o, 'src) full_response \<Rightarrow> ('d, 'dt, 'o, 'src) full_response" where
  "with_sources b m r = (if b then r\<lparr>sources := Some m\<rparr> else r)"

definition after_success ::
  "string \<Rightarrow> ('o, 'q, 'd, 'dt, 'src) event_arg \<Rightarrow> ('d, 'dt, 'o, 'src) full_response
     \<Rightarrow> ('o, 'q, 'd, 'dt, 'src, 'z) source_scheme \<Rightarrow> ('o, 'q, 'd, 'dt, 'src, 'z) source_scheme" where
  "after_success kind req fr s2 =
     s2\<lparr>transformLog := transformLog s2 @ map id_t (newly_logged (transformLog s2) (produced fr)),
        emitted := emitted s2
          @ map (\<lambda>t. (''transform'', [ArgTransform t])) (newly_logged (transformLog s2) (produced fr))
          @ [(kind, [req, ArgResponse fr])]\<rparr>"

definition recorded_inverse ::
  "('o transform \<Rightarrow> 'c \<Rightarrow> ('d option \<times> 'o list option) \<times> 'c) \<Rightarrow> 'o transform \<Rightarrow> 'c \<Rightarrow> 'o list" where
  "recorded_inverse cache_update t c =
     (case snd (fst (cache_update t c)) of None \<Rightarrow> [] | Some ops \<Rightarrow> ops)"

definition reducedTransform_of ::
  "('o list \<Rightarrow> 'o list)
   \<Rightarrow> ('o transform_or_operations \<Rightarrow> request_options option \<Rightarrow> string option \<Rightarrow> 'o transform)
   \<Rightarrow> merge_options \<Rightarrow> 'o transform list \<Rightarrow> 'o transform" where
  "reducedTransform_of coalesceRecordOperations buildTransform opts ts =
     buildTransform
       (OperationsInput (if coalesce opts = Some False then concat (map operations ts)
                         else coalesceRecordOperations (concat (map operations ts))))
       (transformOptions opts) None"

section \<open>Example data\<close>

text \<open>Records and caches for the operators.\<close>

definition jupiter :: record_identity where
  "jupiter = \<lparr>type = ''planet'', id_r = ''jupiter''\<rparr>"

definition io :: record_identity where
  "io = \<lparr>type = ''moon'', id_r = ''io''\<rparr>"

definition jupiter_record :: "string orbit_record" where
  "jupiter_record =
     \<lparr>type = ''planet'', id_r = ''jupiter'', keys = None,
      attributes = Some [''name'' \<mapsto> ''Jupiter''], relationships = None\<rparr>"

text \<open>
  \<open>empty_cache\<close> is the cache as its constructor leaves it for a schema with the
  models \<open>planet\<close> and \<open>moon\<close>: one empty dictionary for each. \<open>jupiter_cache\<close>
  holds the record of Jupiter. \<open>constructor_id\<close> is an identity of the type
  \<open>planet\<close> whose id is the name of a member of \<open>Object.prototype\<close>.
\<close>

definition empty_cache :: "(string, unit) cache" where
  "empty_cache =
     \<lparr>u_records = [''planet'' \<mapsto> Map.empty, ''moon'' \<mapsto> Map.empty], keyMap = None\<rparr>"

definition jupiter_cache :: "(string, unit) cache" where
  "jupiter_cache =
     \<lparr>u_records = [''planet'' \<mapsto> [''jupiter'' \<mapsto> jupiter_record], ''moon'' \<mapsto> Map.empty],
      keyMap = None\<rparr>"


text \<open>
  An instance of the cache parameters of the memory source: a cache that holds the
  value of one attribute of one record. An operation replaces the value by the one it
  carries; patching with several operations leaves the value of the last. The update
  of a transform reports as its inverse operation the value held before (nothing for a
  transform with no operation).
\<close>

definition register_patch :: "string list \<Rightarrow> string \<Rightarrow> string" where
  "register_patch ops c = (if ops = [] then c else last ops)"

definition register_update ::
  "string transform \<Rightarrow> string \<Rightarrow> (unit option \<times> string list option) \<times> string" where
  "register_update t c =
     ((None, Some (if operations t = [] then [] else [c])), register_patch (operations t) c)"

text \<open>Transforms: one of the base, three local ones.\<close>

definition t_b1 :: "string transform" where
  "t_b1 = \<lparr>id_t = ''b1'', operations = [''base''], options = None\<rparr>"

definition t_l1 :: "string transform" where
  "t_l1 = \<lparr>id_t = ''l1'', operations = [''one''], options = None\<rparr>"

definition t_l2 :: "string transform" where
  "t_l2 = \<lparr>id_t = ''l2'', operations = [''two''], options = None\<rparr>"


text \<open>
  Memory sources over that cache. \<open>ex_fresh\<close> has applied nothing. \<open>ex_fork\<close> was
  forked from the base while the base was empty (the fork point is \<open>undefined\<close>) and
  has applied \<open>l1\<close> and \<open>l2\<close>; its base has since applied \<open>b1\<close>.
  \<open>ex_root\<close> has no base. \<open>ex_s1\<close>, \<open>ex_s2\<close>, \<open>ex_s3\<close> are the fresh
  source after it has synced \<open>l1\<close>, then \<open>l2\<close>, then \<open>l3\<close>.
\<close>

type_synonym register_source = "(string, unit, unit, unit, unit, string, unit) memory_source"

definition ex_fresh :: register_source where
  "ex_fresh =
     \<lparr>transformLog = [], emitted = [], u_cache = '''', u_base = None, u_forkPoint = None,
      u_transforms = Map.empty, u_transformInverses = Map.empty\<rparr>"

definition ex_base :: register_source where
  "ex_base =
     \<lparr>transformLog = [''b1''], emitted = [], u_cache = ''base'', u_base = None,
      u_forkPoint = None, u_transforms = [''b1'' \<mapsto> t_b1],
      u_transformInverses = [''b1'' \<mapsto> ['''']]\<rparr>"

definition ex_fork :: "(string, unit, unit, unit, unit, string, register_source) memory_source" where
  "ex_fork =
     \<lparr>transformLog = [''l1'', ''l2''], emitted = [], u_cache = ''two'', u_base = Some ex_base,
      u_forkPoint = None, u_transforms = [''l1'' \<mapsto> t_l1, ''l2'' \<mapsto> t_l2],
      u_transformInverses = [''l1'' \<mapsto> [''''], ''l2'' \<mapsto> [''one'']]\<rparr>"

definition ex_root :: "(string, unit, unit, unit, unit, string, register_source) memory_source" where
  "ex_root =
     \<lparr>transformLog = [''b1''], emitted = [], u_cache = ''base'', u_base = None,
      u_forkPoint = None, u_transforms = [''b1'' \<mapsto> t_b1],
      u_transformInverses = [''b1'' \<mapsto> []]\<rparr>"

definition ex_s1 :: register_source where
  "ex_s1 = snd (u_sync register_update t_l1 ex_fresh)"



text \<open>
  Parameters of the request flow for the examples: a \<open>buildTransform\<close> that passes
  a transform through and builds one from operations; a handler that applies the
  transform to the cache and reports it in \<open>transforms\<close>, as a memory source does
  with a transform it has not logged; a handler that throws; a \<open>_pull\<close> handler that
  reports one transform; listeners that return \<open>undefined\<close> or throw.
\<close>

definition ex_buildTransform ::
  "string transform_or_operations \<Rightarrow> request_options option \<Rightarrow> string option \<Rightarrow> string transform" where
  "ex_buildTransform input opts tid =
     (case input of
        TransformInput t \<Rightarrow> t
      | OperationsInput ops \<Rightarrow>
          \<lparr>id_t = (case tid of Some i \<Rightarrow> i | None \<Rightarrow> ''generated''), operations = ops,
           options = opts\<rparr>)"

definition ex_handler ::
  "string transform \<Rightarrow> (unit, unit) response_hints \<Rightarrow> register_source
     \<Rightarrow> (error + (unit, unit, string, unit) full_response) \<times> register_source" where
  "ex_handler t hints s =
     (Inr \<lparr>data = None, details = None, transforms = Some [t], sources = None\<rparr>,
      snd (u_applyTransform register_update t s))"

definition ex_failing_handler ::
  "'req \<Rightarrow> (unit, unit) response_hints \<Rightarrow> register_source
     \<Rightarrow> (error + (unit, unit, string, unit) full_response) \<times> register_source" where
  "ex_failing_handler req hints s = (Inl (Failure ''server error''), s)"

definition ex_pull_handler ::
  "unit \<Rightarrow> (unit, unit) response_hints \<Rightarrow> register_source
     \<Rightarrow> (error + (unit, unit, string, unit) full_response) \<times> register_source" where
  "ex_pull_handler q hints s =
     (Inr \<lparr>data = None, details = None, transforms = Some [t_b1], sources = None\<rparr>, s)"

definition ex_passing_listener ::
  "'req \<Rightarrow> (unit, unit) response_hints \<Rightarrow> error + unit option \<times> (unit, unit) response_hints" where
  "ex_passing_listener req hints = Inr (None, hints)"

definition ex_failing_listener ::
  "'req \<Rightarrow> (unit, unit) response_hints \<Rightarrow> error + unit option \<times> (unit, unit) response_hints" where
  "ex_failing_listener req hints = Inl (Failure ''not allowed'')"

definition ex_mapNamed :: "unit option list \<Rightarrow> unit" where
  "ex_mapNamed rs = ()"

definition ex_sync_listener :: "string transform \<Rightarrow> unit \<Rightarrow> error + unit option \<times> unit" where
  "ex_sync_listener t u = Inr (None, ())"

text \<open>
  A request queue in which an \<open>update\<close> task for \<open>l1\<close> is waiting when the next
  request is enqueued, as when \<open>update\<close> is called twice before the first task
  has run: the waiting task is performed first, then the new one. \<open>ex_after_l1\<close>
  is the fresh source as the waiting task leaves it.
\<close>

definition ex_after_l1 :: register_source where
  "ex_after_l1 =
     snd (u_enqueueRequest (uu_update [] ex_mapNamed ex_handler) ''update'' t_l1 ex_fresh)"

definition ex_enqueue_behind ::
  "string \<Rightarrow> string transform \<Rightarrow> register_source
     \<Rightarrow> (error + (unit, unit, string, unit) full_response) \<times> register_source" where
  "ex_enqueue_behind kind t s =
     u_enqueueRequest (uu_update [] ex_mapNamed ex_handler) kind t
       (snd (u_enqueueRequest (uu_update [] ex_mapNamed ex_handler) ''update'' t_l1 s))"
section \<open>Properties of the record cache operators\<close>

subsection \<open>Facts about the cache\<close>

lemma inherited_names:
  "inherited ''constructor''" "inherited ''__proto__''"
  by (simp_all add: inherited_def Object_prototype_def)

lemma not_inherited_proto: "\<not> inherited k \<Longrightarrow> k \<noteq> ''__proto__''"
  using inherited_names(2) by auto

lemma getRecordSync_plain:
  "\<not> inherited (type i) \<Longrightarrow> \<not> inherited (id_r i) \<Longrightarrow>
     getRecordSync c i = Undefined \<or> (\<exists>cur. getRecordSync c i = Stored cur)"
  by (simp add: getRecordSync_def split: option.split)

lemma getRecordSync_setRecordSync_at:
  "setRecordSync c r = Returns c' \<Longrightarrow> type i = type r \<Longrightarrow> id_r i = id_r r \<Longrightarrow>
     getRecordSync c' i = Stored r"
  by (auto simp: getRecordSync_def setRecordSync_def split: option.splits if_splits)

lemma getRecordSync_setRecordSync_other:
  "setRecordSync c r = Returns c' \<Longrightarrow> \<not> equalRecordIdentities j r \<Longrightarrow>
     (getRecordSync c' j = Stored x) = (getRecordSync c j = Stored x)"
  by (auto simp: getRecordSync_def setRecordSync_def equalRecordIdentities_def
           split: option.splits if_splits)

lemma setRecordSync_Undefined:
  "getRecordSync c i = Undefined \<Longrightarrow> type r = type i \<Longrightarrow> id_r r = id_r i \<Longrightarrow>
     id_r i \<noteq> ''__proto__'' \<Longrightarrow> \<exists>c'. setRecordSync c r = Returns c'"
  by (auto simp: getRecordSync_def setRecordSync_def split: option.splits if_splits)

lemma setRecordSync_Stored:
  "getRecordSync c i = Stored cur \<Longrightarrow> type r = type i \<Longrightarrow> id_r r = id_r i \<Longrightarrow>
     id_r i \<noteq> ''__proto__'' \<Longrightarrow> \<exists>c'. setRecordSync c r = Returns c'"
  by (auto simp: getRecordSync_def setRecordSync_def split: option.splits if_splits)

lemma setRecordSync_again:
  "setRecordSync c r = Returns c' \<Longrightarrow> setRecordSync c' r = Returns c'"
  by (auto simp: setRecordSync_def split: option.splits if_splits)


lemma recordsInclude_iff:
  "recordsInclude rs m \<longleftrightarrow> (\<exists>r \<in> set rs. equalRecordIdentities r m)"
  by (induction rs) auto

lemma recordsInclude_append_self:
  "recordsInclude (rs @ [m]) m"
  by (simp add: recordsInclude_iff equalRecordIdentities_def)

lemma deepGet_data_deepSet_data:
  "deepSet_data r rel d = Returns r' \<Longrightarrow> deepGet_data r' rel = Returns d"
  by (auto simp: deepGet_data_def deepSet_data_def Let_def split: if_splits)

lemma deepSet_data_identity:
  assumes "deepSet_data r rel d = Returns r'"
  shows "type r' = type r" "id_r r' = id_r r"
  using assms by (auto simp: deepSet_data_def Let_def split: if_splits)

lemma deepSet_data_plain:
  "\<not> inherited rel \<Longrightarrow> \<exists>r'. deepSet_data r rel d = Returns r'"
  by (simp add: deepSet_data_def Let_def)

lemma deepGet_data_plain:
  "\<not> inherited rel \<Longrightarrow> \<exists>d. deepGet_data r rel = Returns d"
  by (simp add: deepGet_data_def split: option.split)

lemma deepGet_data_cloneRecordIdentity:
  "deepGet_data (cloneRecordIdentity i) rel = Returns DataUndefined"
  by (simp add: cloneRecordIdentity_def deepGet_data_def)

lemma cloneRecordIdentity_identity:
  "type (cloneRecordIdentity i) = type i" "id_r (cloneRecordIdentity i) = id_r i"
  by (simp_all add: cloneRecordIdentity_def)

subsection \<open>Claim C6\<close>

text \<open>
  Claim C6 says that \<open>removeFromRelatedRecords\<close> on a record that does not exist
  stores a shell record with an empty relationship array. It does not: on a cache
  that holds no record, the lookup of Jupiter finds nothing, the operator returns
  \<open>undefined\<close> and leaves the cache as it was, so that no shell is stored.
\<close>

theorem removeFromRelatedRecords_missing_record_counterexample:
  "getRecordSync empty_cache jupiter = Undefined
 \<and> removeFromRelatedRecords empty_cache jupiter ''moons'' io = Returns (None, empty_cache)
 \<and> getRecordSync empty_cache jupiter \<noteq>
      Stored \<lparr>type = ''planet'', id_r = ''jupiter'', keys = None, attributes = None,
              relationships = Some [''moons'' \<mapsto> DataMany []]\<rparr>"
  by (simp add: removeFromRelatedRecords_def getRecordSync_def empty_cache_def jupiter_def
        inherited_def Object_prototype_def)

text \<open>
  Claim C6, amended: for every cache in which the lookup of the base record finds
  nothing, \<open>removeFromRelatedRecords(id, rel, relId)\<close> writes nothing; it returns
  \<open>undefined\<close> and leaves the cache as it was. For an identity whose type and id
  are not names of members of \<open>Object.prototype\<close>, the lookup finds nothing exactly
  when no record is stored under the identity.
\<close>

theorem removeFromRelatedRecords_missing_record:
  "(getRecordSync c i = Undefined \<longrightarrow> removeFromRelatedRecords c i rel x = Returns (None, c))
 \<and> (\<not> inherited (type i) \<and> \<not> inherited (id_r i) \<longrightarrow>
      (getRecordSync c i = Undefined) = (\<forall>cur. getRecordSync c i \<noteq> Stored cur))"
proof (intro conjI impI)
  assume "getRecordSync c i = Undefined"
  then show "removeFromRelatedRecords c i rel x = Returns (None, c)"
    by (simp add: removeFromRelatedRecords_def)
next
  assume "\<not> inherited (type i) \<and> \<not> inherited (id_r i)"
  then have "getRecordSync c i = Undefined \<or> (\<exists>cur. getRecordSync c i = Stored cur)"
    by (simp add: getRecordSync_plain)
  then show "(getRecordSync c i = Undefined) = (\<forall>cur. getRecordSync c i \<noteq> Stored cur)"
    by auto
qed

text \<open>The amended C6 at the cache that holds no record.\<close>

theorem removeFromRelatedRecords_missing_record_witness:
  "getRecordSync empty_cache jupiter = Undefined
 \<and> removeFromRelatedRecords empty_cache jupiter ''moons'' io = Returns (None, empty_cache)
 \<and> \<not> inherited (type jupiter) \<and> \<not> inherited (id_r jupiter)
 \<and> (\<forall>cur. getRecordSync empty_cache jupiter \<noteq> Stored cur)"
proof -
  have n: "getRecordSync empty_cache jupiter = Undefined"
    by (simp add: getRecordSync_def empty_cache_def jupiter_def inherited_def Object_prototype_def)
  have p: "\<not> inherited (type jupiter) \<and> \<not> inherited (id_r jupiter)"
    by (simp add: jupiter_def inherited_def Object_prototype_def)
  from removeFromRelatedRecords_missing_record [of empty_cache jupiter "''moons''" io] n p
  show ?thesis by simp
qed

subsection \<open>Claim C8\<close>








subsection \<open>Claim C7\<close>

text \<open>
  What \<open>addToRelatedRecords\<close> does on a working record \<open>w\<close>, the copy of the
  stored record or the shell, whose array of related records is \<open>xs\<close>.
\<close>

lemma and_then_Returns:
  "and_then m f = Returns y \<longleftrightarrow> (\<exists>x. m = Returns x \<and> f x = Returns y)"
  by (cases m) auto

lemma addToRelatedRecords_on:
  assumes w: "getRecordSync c r = Undefined \<and> w = cloneRecordIdentity r
              \<or> getRecordSync c r = Stored w"
  shows "addToRelatedRecords c r rel x =
          and_then (deepGet_data w rel) (\<lambda>found.
             case found of
               DataOne y \<Rightarrow> Throws TypeError
             | DataMany xs \<Rightarrow>
                 if \<not> recordsInclude xs x then
                   and_then (deepSet_data w rel (DataMany (xs @ [x]))) (\<lambda>record1.
                   and_then (setRecordSync c record1) (\<lambda>c1. Returns (record1, c1)))
                 else Returns (w, c)
             | _ \<Rightarrow>
                 and_then (deepSet_data w rel (DataMany [x])) (\<lambda>record1.
                 and_then (setRecordSync c record1) (\<lambda>c1. Returns (record1, c1))))"
  using w by (auto simp: addToRelatedRecords_def clone_def Let_def)

lemma related_before_on:
  assumes "getRecordSync c r = Undefined \<and> w = cloneRecordIdentity r
           \<or> getRecordSync c r = Stored w"
    and "deepGet_data w rel = Returns d"
  shows "related_before c r rel = (case d of DataMany xs \<Rightarrow> xs | _ \<Rightarrow> [])"
  using assms
  by (auto simp: related_before_def deepGet_data_cloneRecordIdentity split: rel_data.splits)

lemma addToRelatedRecords_present:
  assumes "getRecordSync c r = Stored w" "deepGet_data w rel = Returns (DataMany xs)"
    "recordsInclude xs x"
  shows "addToRelatedRecords c r rel x = Returns (w, c)"
  using assms by (simp add: addToRelatedRecords_on)

lemma addToRelatedRecords_cases:
  assumes w: "getRecordSync c r = Undefined \<and> w = cloneRecordIdentity r
              \<or> getRecordSync c r = Stored w"
    and a: "addToRelatedRecords c r rel x = Returns (rec1, c1)"
  obtains (present) xs where "deepGet_data w rel = Returns (DataMany xs)" "recordsInclude xs x"
      "rec1 = w" "c1 = c" "getRecordSync c r = Stored w"
  | (written) xs where "related_before c r rel = xs" "\<not> recordsInclude xs x"
      "deepSet_data w rel (DataMany (xs @ [x])) = Returns rec1" "setRecordSync c rec1 = Returns c1"
      "deepGet_data w rel = Returns (DataMany xs)
       \<or> (deepGet_data w rel = Returns DataUndefined \<or> deepGet_data w rel = Returns DataNull)
          \<and> xs = []"
proof -
  from a obtain d where d: "deepGet_data w rel = Returns d"
    using addToRelatedRecords_on [OF w, of rel x] by (cases "deepGet_data w rel") auto
  note rb = related_before_on [OF w d]
  show thesis
  proof (cases d)
    case (DataOne y)
    with a d show thesis using addToRelatedRecords_on [OF w, of rel x] by simp
  next
    case (DataMany xs)
    show thesis
    proof (cases "recordsInclude xs x")
      case True
      have "getRecordSync c r = Stored w"
        using w d DataMany by (auto simp: deepGet_data_cloneRecordIdentity)
      moreover have "rec1 = w \<and> c1 = c"
        using a d DataMany True addToRelatedRecords_on [OF w, of rel x] by simp
      ultimately show thesis using present [of xs] d DataMany True by simp
    next
      case False
      from a d DataMany False addToRelatedRecords_on [OF w, of rel x]
      have "and_then (deepSet_data w rel (DataMany (xs @ [x]))) (\<lambda>record1.
              and_then (setRecordSync c record1) (\<lambda>c1. Returns (record1, c1)))
            = Returns (rec1, c1)" by simp
      then have "deepSet_data w rel (DataMany (xs @ [x])) = Returns rec1
                 \<and> setRecordSync c rec1 = Returns c1"
        by (auto simp: and_then_Returns)
      with written [of xs] rb d DataMany False show thesis by simp
    qed
  next
    case DataUndefined
    from a d DataUndefined addToRelatedRecords_on [OF w, of rel x]
    have "and_then (deepSet_data w rel (DataMany [x])) (\<lambda>record1.
            and_then (setRecordSync c record1) (\<lambda>c1. Returns (record1, c1)))
          = Returns (rec1, c1)" by simp
    then have "deepSet_data w rel (DataMany ([] @ [x])) = Returns rec1
               \<and> setRecordSync c rec1 = Returns c1"
      by (auto simp: and_then_Returns)
    with written [of "[]"] rb d DataUndefined show thesis by simp
  next
    case DataNull
    from a d DataNull addToRelatedRecords_on [OF w, of rel x]
    have "and_then (deepSet_data w rel (DataMany [x])) (\<lambda>record1.
            and_then (setRecordSync c record1) (\<lambda>c1. Returns (record1, c1)))
          = Returns (rec1, c1)" by simp
    then have "deepSet_data w rel (DataMany ([] @ [x])) = Returns rec1
               \<and> setRecordSync c rec1 = Returns c1"
      by (auto simp: and_then_Returns)
    with written [of "[]"] rb d DataNull show thesis by simp
  qed
qed

lemma addToRelatedRecords_written:
  assumes "getRecordSync c r = Stored w"
    and "deepGet_data w rel = Returns (DataMany xs)
         \<or> (deepGet_data w rel = Returns DataUndefined \<or> deepGet_data w rel = Returns DataNull)
            \<and> xs = []"
    and "\<not> recordsInclude xs x"
    and "deepSet_data w rel (DataMany (xs @ [x])) = Returns rec1"
    and "setRecordSync c rec1 = Returns c1"
  shows "addToRelatedRecords c r rel x = Returns (rec1, c1)"
  using assms by (auto simp: addToRelatedRecords_on)

text \<open>
  Claim C7: \<open>addToRelatedRecords(r, rel, x)\<close> is idempotent. For every cache, record
  identity \<open>r\<close>, relationship \<open>rel\<close> and related identity \<open>x\<close>: when the operator
  returns a record, then applied again to the cache it leaves it returns the same
  record and leaves the same cache, so the record stored after two applications is the
  one stored after one. The record lists in the relationship the identities it listed
  before, followed by \<open>x\<close> when \<open>x\<close> was not among them; when it was, the cache is
  not written at all. When the cache stores each record under the identity the record
  carries, the record returned is the one stored under \<open>r\<close>. The operator does
  return a record when the cache is such, the type and id of \<open>r\<close> and the name of
  the relationship are not names of members of \<open>Object.prototype\<close>, and the data of
  the relationship is not a single identity (a to-many relationship).
\<close>

theorem addToRelatedRecords_idempotent:
  "(\<forall>rec1 c1.
      addToRelatedRecords c r rel x = Returns (rec1, c1) \<longrightarrow>
        addToRelatedRecords c1 r rel x = Returns (rec1, c1)
      \<and> deepGet_data rec1 rel =
          Returns (DataMany (if recordsInclude (related_before c r rel) x
                             then related_before c r rel
                             else related_before c r rel @ [x]))
      \<and> (recordsInclude (related_before c r rel) x \<longrightarrow> c1 = c)
      \<and> ((\<forall>cur. getRecordSync c r = Stored cur \<longrightarrow> equalRecordIdentities cur r) \<longrightarrow>
            getRecordSync c1 r = Stored rec1))
 \<and> ((\<forall>cur. getRecordSync c r = Stored cur \<longrightarrow> equalRecordIdentities cur r)
      \<and> \<not> inherited (type r) \<and> \<not> inherited (id_r r) \<and> \<not> inherited rel
      \<and> (\<forall>cur y. getRecordSync c r = Stored cur \<longrightarrow> deepGet_data cur rel \<noteq> Returns (DataOne y)) \<longrightarrow>
      (\<exists>rec1 c1. addToRelatedRecords c r rel x = Returns (rec1, c1)))"
proof (intro conjI allI impI)
  fix rec1 c1
  assume a: "addToRelatedRecords c r rel x = Returns (rec1, c1)"
  define w where "w = (case getRecordSync c r of Stored cur \<Rightarrow> cur | _ \<Rightarrow> cloneRecordIdentity r)"
  have w: "getRecordSync c r = Undefined \<and> w = cloneRecordIdentity r \<or> getRecordSync c r = Stored w"
    using a by (cases "getRecordSync c r") (simp_all add: w_def addToRelatedRecords_def)
  let ?ident = "\<forall>cur. getRecordSync c r = Stored cur \<longrightarrow> equalRecordIdentities cur r"
  let ?xs = "related_before c r rel"
  have "addToRelatedRecords c1 r rel x = Returns (rec1, c1)
      \<and> deepGet_data rec1 rel =
          Returns (DataMany (if recordsInclude ?xs x then ?xs else ?xs @ [x]))
      \<and> (recordsInclude ?xs x \<longrightarrow> c1 = c)
      \<and> (?ident \<longrightarrow> getRecordSync c1 r = Stored rec1)"
  using w a proof (cases rule: addToRelatedRecords_cases)
    case (present xs)
    then have "related_before c r rel = xs" by (simp add: related_before_def)
    with present a show ?thesis by simp
  next
    case (written xs)
    have d1: "deepGet_data rec1 rel = Returns (DataMany (xs @ [x]))"
      using written(3) by (rule deepGet_data_deepSet_data)
    have i1: "type rec1 = type w" "id_r rec1 = id_r w"
      using written(3) by (rule deepSet_data_identity)+
    show ?thesis
    proof (cases "type rec1 = type r \<and> id_r rec1 = id_r r")
      case True
      have g: "getRecordSync c1 r = Stored rec1"
        by (rule getRecordSync_setRecordSync_at [OF written(4)]) (simp_all add: True)
      then have "addToRelatedRecords c1 r rel x = Returns (rec1, c1)"
        using d1 by (rule addToRelatedRecords_present) (rule recordsInclude_append_self)
      with g d1 written show ?thesis by simp
    next
      case False
      then have s: "getRecordSync c r = Stored w"
        using w i1 by (auto simp: cloneRecordIdentity_def)
      have ne: "\<not> equalRecordIdentities r rec1"
        using False by (auto simp: equalRecordIdentities_def)
      have "getRecordSync c1 r = Stored w"
        using getRecordSync_setRecordSync_other [OF written(4) ne, of w] s by simp
      then have "addToRelatedRecords c1 r rel x = Returns (rec1, c1)"
        using written(5) written(2) written(3)
        by (rule addToRelatedRecords_written) (rule setRecordSync_again [OF written(4)])
      moreover have "\<not> ?ident"
        using s False i1 by (auto simp: equalRecordIdentities_def)
      ultimately show ?thesis using d1 written by auto
    qed
  qed
  then show "addToRelatedRecords c1 r rel x = Returns (rec1, c1)"
    and "deepGet_data rec1 rel =
          Returns (DataMany (if recordsInclude ?xs x then ?xs else ?xs @ [x]))"
    and "recordsInclude ?xs x \<Longrightarrow> c1 = c"
    and "?ident \<Longrightarrow> getRecordSync c1 r = Stored rec1"
    by blast+
next
  assume h: "(\<forall>cur. getRecordSync c r = Stored cur \<longrightarrow> equalRecordIdentities cur r)
      \<and> \<not> inherited (type r) \<and> \<not> inherited (id_r r) \<and> \<not> inherited rel
      \<and> (\<forall>cur y. getRecordSync c r = Stored cur \<longrightarrow> deepGet_data cur rel \<noteq> Returns (DataOne y))"
  define w where "w = (case getRecordSync c r of Stored cur \<Rightarrow> cur | _ \<Rightarrow> cloneRecordIdentity r)"
  have w: "getRecordSync c r = Undefined \<and> w = cloneRecordIdentity r \<or> getRecordSync c r = Stored w"
    using h getRecordSync_plain [of r c] by (auto simp: w_def)
  have iw: "type w = type r" "id_r w = id_r r"
    using w h by (auto simp: cloneRecordIdentity_def equalRecordIdentities_def)
  have p: "id_r r \<noteq> ''__proto__''" using h by (simp add: not_inherited_proto)
  obtain d where d: "deepGet_data w rel = Returns d"
    using h deepGet_data_plain [of rel w] by blast
  have not_one: "d \<noteq> DataOne y" for y
    using w d h by (auto simp: deepGet_data_cloneRecordIdentity)
  have store: "\<exists>rec1 c1. deepSet_data w rel (DataMany ys) = Returns rec1
                 \<and> setRecordSync c rec1 = Returns c1" for ys
  proof -
    obtain rec1 where r1: "deepSet_data w rel (DataMany ys) = Returns rec1"
      using h deepSet_data_plain [of rel w] by blast
    have i1: "type rec1 = type r" "id_r rec1 = id_r r"
      using deepSet_data_identity [OF r1] iw by simp_all
    from w have "\<exists>c1. setRecordSync c rec1 = Returns c1"
    proof
      assume "getRecordSync c r = Undefined \<and> w = cloneRecordIdentity r"
      then show ?thesis using setRecordSync_Undefined [of c r rec1] i1 p by simp
    next
      assume "getRecordSync c r = Stored w"
      then show ?thesis using setRecordSync_Stored [of c r w rec1] i1 p by simp
    qed
    with r1 show ?thesis by blast
  qed
  show "\<exists>rec1 c1. addToRelatedRecords c r rel x = Returns (rec1, c1)"
  proof (cases d)
    case (DataOne y)
    with not_one [of y] show ?thesis by simp
  next
    case (DataMany xs)
    show ?thesis
    proof (cases "recordsInclude xs x")
      case True
      with d DataMany show ?thesis by (simp add: addToRelatedRecords_on [OF w])
    next
      case False
      from store [of "xs @ [x]"] d DataMany False show ?thesis
        by (auto simp: addToRelatedRecords_on [OF w])
    qed
  next
    case DataUndefined
    from store [of "[x]"] d DataUndefined show ?thesis
      by (auto simp: addToRelatedRecords_on [OF w])
  next
    case DataNull
    from store [of "[x]"] d DataNull show ?thesis
      by (auto simp: addToRelatedRecords_on [OF w])
  qed
qed

text \<open>
  C7 at the cache that holds the record of Jupiter, which has no relationship yet: the
  first application stores the record with \<open>io\<close> among its moons, the second
  changes nothing.
\<close>

theorem addToRelatedRecords_idempotent_witness:
  "getRecordSync jupiter_cache jupiter = Stored jupiter_record
 \<and> equalRecordIdentities jupiter_record jupiter
 \<and> \<not> inherited (type jupiter) \<and> \<not> inherited (id_r jupiter) \<and> \<not> inherited ''moons''
 \<and> deepGet_data jupiter_record ''moons'' = Returns DataUndefined
 \<and> related_before jupiter_cache jupiter ''moons'' = []
 \<and> (\<exists>rec1 c1. addToRelatedRecords jupiter_cache jupiter ''moons'' io = Returns (rec1, c1)
        \<and> addToRelatedRecords c1 jupiter ''moons'' io = Returns (rec1, c1)
        \<and> deepGet_data rec1 ''moons'' = Returns (DataMany [io])
        \<and> getRecordSync c1 jupiter = Stored rec1)"
proof -
  have s: "getRecordSync jupiter_cache jupiter = Stored jupiter_record"
    by (simp add: getRecordSync_def jupiter_cache_def jupiter_def)
  have e: "equalRecordIdentities jupiter_record jupiter"
    by (simp add: jupiter_record_def jupiter_def equalRecordIdentities_def)
  have q: "\<not> inherited (type jupiter)" "\<not> inherited (id_r jupiter)" "\<not> inherited ''moons''"
    by (simp_all add: jupiter_def inherited_def Object_prototype_def)
  have d: "deepGet_data jupiter_record ''moons'' = Returns DataUndefined"
    by (simp add: deepGet_data_def jupiter_record_def)
  have b: "related_before jupiter_cache jupiter ''moons'' = []"
    by (simp add: related_before_def s d)
  have ident: "\<forall>cur. getRecordSync jupiter_cache jupiter = Stored cur \<longrightarrow> equalRecordIdentities cur jupiter"
    using s e by simp
  have many: "\<forall>cur y. getRecordSync jupiter_cache jupiter = Stored cur \<longrightarrow>
                deepGet_data cur ''moons'' \<noteq> Returns (DataOne y)"
    using s d by simp
  note T = addToRelatedRecords_idempotent [of jupiter_cache jupiter "''moons''" io]
  from T [THEN conjunct2] ident q many
  obtain rec1 c1 where a: "addToRelatedRecords jupiter_cache jupiter ''moons'' io = Returns (rec1, c1)"
    by blast
  from T [THEN conjunct1, rule_format, OF a] ident b
  have "addToRelatedRecords c1 jupiter ''moons'' io = Returns (rec1, c1)"
    "deepGet_data rec1 ''moons'' = Returns (DataMany [io])"
    "getRecordSync c1 jupiter = Stored rec1"
    by simp_all
  with a s e q d b show ?thesis by blast
qed

section \<open>Properties of the request flow and of the memory source\<close>

subsection \<open>The request flow: what a successful request emits\<close>

lemma transformed_effect:
  "transformLog (transformed ts s) = transformLog s @ map id_t (newly_logged (transformLog s) ts)
 \<and> emitted (transformed ts s) =
      emitted s @ map (\<lambda>t. (''transform'', [ArgTransform t])) (newly_logged (transformLog s) ts)
 \<and> source.more (transformed ts s) = source.more s"
proof (induction ts arbitrary: s)
  case Nil
  then show ?case by simp
next
  case (Cons t ts)
  show ?case
  proof (cases "log_contains (transformLog s) (id_t t)")
    case True
    with Cons show ?thesis by simp
  next
    case False
    let ?s1 = "settleInSeries ''transform'' [ArgTransform t]
                 (s\<lparr>transformLog := log_append (transformLog s) (id_t t)\<rparr>)"
    have l: "transformLog ?s1 = log_append (transformLog s) (id_t t)"
      and e: "emitted ?s1 = emitted s @ [(''transform'', [ArgTransform t])]"
      and m: "source.more ?s1 = source.more s"
      by (simp_all add: settleInSeries_def emit_def)
    from False have "transformed (t # ts) s = transformed ts ?s1" by simp
    with Cons [of ?s1] l e m False show ?thesis
      by (simp add: log_append_def)
  qed
qed

lemma newly_logged_all:
  "distinct (map id_t ts) \<Longrightarrow> \<forall>t \<in> set ts. \<not> log_contains log (id_t t) \<Longrightarrow> newly_logged log ts = ts"
proof (induction ts arbitrary: log)
  case Nil
  then show ?case by simp
next
  case (Cons t ts)
  have "\<forall>u \<in> set ts. \<not> log_contains (log_append log (id_t t)) (id_t u)"
    using Cons.prems by (auto simp: log_contains_def log_append_def) (metis imageI)
  with Cons show ?case by simp
qed

lemma transformed_eq:
  "transformed ts s =
     s\<lparr>transformLog := transformLog s @ map id_t (newly_logged (transformLog s) ts),
       emitted := emitted s @ map (\<lambda>t. (''transform'', [ArgTransform t]))
                                (newly_logged (transformLog s) ts)\<rparr>"
  by (rule source.equality) (simp_all add: transformed_effect)

lemma newly_logged_Nil [simp]: "newly_logged log [] = []"
  by simp

lemma produced_with_sources [simp]: "produced (with_sources b m r) = produced r"
  by (simp add: produced_def with_sources_def)

lemma uu_update_success:
  assumes "\<not> log_contains (transformLog s) (id_t t)"
    and "fulfillInSeries ls t no_hints = Inr (others, hints)"
    and "h t hints (emit ''beforeUpdate'' [ArgTransform t, ArgHints] s) = (Inr r, s2)"
  shows "uu_update ls mapN h t s =
     (Inr (with_sources (\<exists>ro. options t = Some ro \<and> includeSources ro = Some True) (mapN others) r),
      after_success ''update'' (ArgTransform t)
        (with_sources (\<exists>ro. options t = Some ro \<and> includeSources ro = Some True) (mapN others) r) s2)"
  using assms
  by (cases "transforms r"; cases "options t")
     (auto simp: uu_update_def Let_def with_sources_def produced_def after_success_def
        settleInSeries_def emit_def transformed_eq truthy_def)

lemma uu_pull_success:
  assumes "fulfillInSeries ls q no_hints = Inr (others, hints)"
    and "h q hints (emit ''beforePull'' [ArgQuery q, ArgHints] s) = (Inr r, s2)"
  shows "uu_pull ls mapN h q s =
     (Inr (with_sources (others \<noteq> []) (mapN others) r),
      after_success ''pull'' (ArgQuery q) (with_sources (others \<noteq> []) (mapN others) r) s2)"
  using assms
  by (cases "transforms r")
     (auto simp: uu_pull_def Let_def with_sources_def produced_def after_success_def
        settleInSeries_def emit_def transformed_eq)

subsection \<open>The memory source: rebase\<close>



lemma transformLog_undo_transform [simp]:
  "transformLog (undo_transform cp tid s) = transformLog s"
  by (simp add: undo_transform_def u_clearTransformFromHistory_def split: option.split)

lemma transformLog_u_applyTransform [simp]:
  "transformLog (snd (u_applyTransform cu t s)) = transformLog s"
  by (simp add: u_applyTransform_def split: prod.split)

lemma transformLog_fold_undo [simp]:
  "transformLog (fold (undo_transform cp) ids s) = transformLog s"
  by (induction ids arbitrary: s) simp_all

lemma transformLog_fold_apply [simp]:
  "transformLog (fold (\<lambda>t s. snd (u_applyTransform cu t s)) ts s) = transformLog s"
  by (induction ts arbitrary: s) simp_all

text \<open>
  Claim C10: \<open>rebase()\<close> on a memory source with no base source throws an
  \<open>Assertion\<close> and leaves the source as it was: its cache, its transform log, its
  transform history (\<open>_transforms\<close> and \<open>_transformInverses\<close>) and its fork point
  are unchanged.
\<close>

theorem rebase_without_base:
  "u_base s = None \<Longrightarrow>
     (\<exists>msg. fst (rebase cp cu s) = Some (Assertion msg))
   \<and> snd (rebase cp cu s) = s
   \<and> u_cache (snd (rebase cp cu s)) = u_cache s
   \<and> transformLog (snd (rebase cp cu s)) = transformLog s
   \<and> u_transforms (snd (rebase cp cu s)) = u_transforms s
   \<and> u_transformInverses (snd (rebase cp cu s)) = u_transformInverses s
   \<and> u_forkPoint (snd (rebase cp cu s)) = u_forkPoint s"
  by (simp add: rebase_def)


subsection \<open>The memory source: sync and rollback\<close>

lemma u_applyTransform_fields:
  "u_cache (snd (u_applyTransform cu t s)) = snd (cu t (u_cache s))"
  "u_transforms (snd (u_applyTransform cu t s)) = (u_transforms s)(id_t t \<mapsto> t)"
  "u_transformInverses (snd (u_applyTransform cu t s)) =
     (u_transformInverses s)(id_t t \<mapsto> recorded_inverse cu t (u_cache s))"
  "emitted (snd (u_applyTransform cu t s)) = emitted s"
  by (simp_all add: u_applyTransform_def recorded_inverse_def split: prod.split)

lemma u_sync_new:
  assumes "\<not> log_contains (transformLog s) (id_t t)"
  shows "fst (u_sync cu t s) = None"
    and "transformLog (snd (u_sync cu t s)) = transformLog s @ [id_t t]"
    and "u_cache (snd (u_sync cu t s)) = snd (cu t (u_cache s))"
    and "u_transforms (snd (u_sync cu t s)) = (u_transforms s)(id_t t \<mapsto> t)"
    and "u_transformInverses (snd (u_sync cu t s)) =
           (u_transformInverses s)(id_t t \<mapsto> recorded_inverse cu t (u_cache s))"
    and "emitted (snd (u_sync cu t s)) = emitted s @ [(''transform'', [ArgTransform t])]"
  using assms
  by (simp_all add: u_sync_def u_applyTransform_fields settleInSeries_def emit_def log_append_def)




subsection \<open>The memory source on examples\<close>

lemma ex_fork_locals: "allTransforms ex_fork = map Some [t_l1, t_l2]"
  by (simp add: allTransforms_def ex_fork_def log_entries_def)





text \<open>C10 on a source that has no base.\<close>

theorem rebase_without_base_witness:
  "u_base ex_root = None
 \<and> fst (rebase register_patch register_update ex_root) =
      Some (Assertion ''A `base` source must be defined for `rebase` to work'')
 \<and> snd (rebase register_patch register_update ex_root) = ex_root"
proof -
  have b: "u_base ex_root = None" by (simp add: ex_root_def)
  have "fst (rebase register_patch register_update ex_root) =
      Some (Assertion ''A `base` source must be defined for `rebase` to work'')"
    using b by (simp add: rebase_def)
  with b rebase_without_base [OF b, of register_patch register_update] show ?thesis by simp
qed

lemma ex_s1_fields:
  "transformLog ex_s1 = [''l1'']" "u_cache ex_s1 = ''one''"
  by (simp_all add: ex_s1_def u_sync_def u_applyTransform_def register_update_def
      register_patch_def ex_fresh_def t_l1_def log_contains_def settleInSeries_def emit_def
      log_append_def)




subsection \<open>The memory source: merge\<close>

lemma merge_ops_defined:
  "merge_ops (map Some ts) acc = Inr (acc @ concat (map operations ts))"
  by (induction ts arbitrary: acc) simp_all

text \<open>
  Claim C5: \<open>merge(forkedSource, opts)\<close> takes
  \<open>forkedSource.transformsSince(opts.sinceTransformId)\<close> when
  \<open>sinceTransformId\<close> is given (a non-empty string) and
  \<open>forkedSource.allTransforms()\<close> otherwise, concatenates the operations of these
  transforms in order, coalesces them unless \<open>opts.coalesce\<close> is \<open>false\<close>,
  builds one transform from the result and passes that transform, and nothing else, to
  \<open>this.update\<close>.
\<close>

theorem merge_updates_with_one_reduced_transform:
  "(\<forall>since. sinceTransformId opts = Some since \<and> since \<noteq> []
        \<and> transformsSince forked since = Inr (map Some ts) \<longrightarrow>
      merge coal bt enq forked opts s =
        update bt enq (TransformInput (reducedTransform_of coal bt opts ts)) None None s)
 \<and> ((sinceTransformId opts = None \<or> sinceTransformId opts = Some [])
        \<and> allTransforms forked = map Some ts \<longrightarrow>
      merge coal bt enq forked opts s =
        update bt enq (TransformInput (reducedTransform_of coal bt opts ts)) None None s)"
  by (auto simp: merge_def merge_ops_defined reducedTransform_of_def Let_def)

subsection \<open>The request flow: failures\<close>

lemma fulfillInSeries_throws:
  "fulfillInSeries pre req h = Inr (rs, h') \<Longrightarrow> l req h' = Inl e
     \<Longrightarrow> fulfillInSeries (pre @ l # post) req h = Inl e"
  by (induction pre arbitrary: h rs) (auto split: sum.splits prod.splits)

lemma uu_update_listener_throws:
  assumes "\<not> log_contains (transformLog s) (id_t t)" and "fulfillInSeries ls t no_hints = Inl e"
  shows "uu_update ls mapN h t s =
     (Inl e, s\<lparr>emitted := emitted s @ [(''beforeUpdate'', [ArgTransform t, ArgHints]),
                                        (''updateFail'', [ArgTransform t, ArgError e])]\<rparr>)"
  using assms by (simp add: uu_update_def Let_def settleInSeries_def emit_def)

lemma uu_update_handler_throws:
  assumes "\<not> log_contains (transformLog s) (id_t t)"
    and "fulfillInSeries ls t no_hints = Inr (others, hints)"
    and "h t hints (emit ''beforeUpdate'' [ArgTransform t, ArgHints] s) = (Inl e, s2)"
  shows "uu_update ls mapN h t s =
     (Inl e, s2\<lparr>emitted := emitted s2 @ [(''updateFail'', [ArgTransform t, ArgError e])]\<rparr>)"
  using assms by (simp add: uu_update_def Let_def settleInSeries_def emit_def)

lemma uu_pull_listener_throws:
  assumes "fulfillInSeries ls q no_hints = Inl e"
  shows "uu_pull ls mapN h q s =
     (Inl e, s\<lparr>emitted := emitted s @ [(''beforePull'', [ArgQuery q, ArgHints]),
                                        (''pullFail'', [ArgQuery q, ArgError e])]\<rparr>)"
  using assms by (simp add: uu_pull_def Let_def settleInSeries_def emit_def)

lemma uu_pull_handler_throws:
  assumes "fulfillInSeries ls q no_hints = Inr (others, hints)"
    and "h q hints (emit ''beforePull'' [ArgQuery q, ArgHints] s) = (Inl e, s2)"
  shows "uu_pull ls mapN h q s =
     (Inl e, s2\<lparr>emitted := emitted s2 @ [(''pullFail'', [ArgQuery q, ArgError e])]\<rparr>)"
  using assms by (simp add: uu_pull_def Let_def settleInSeries_def emit_def)

lemma update_rejects:
  assumes "\<not> log_contains (transformLog s) (id_t (bt tx opts tid))"
    and "uu_update ls mapN h (bt tx opts tid) s = (Inl e, s')"
  shows "update bt (u_enqueueRequest (uu_update ls mapN h)) tx opts tid s = (Inl e, s')"
  using assms by (simp add: update_def u_enqueueRequest_def Let_def)

lemma pull_rejects:
  assumes "uu_pull ls mapN h (bq qe opts qid) s = (Inl e, s')"
  shows "pull bq (u_enqueueRequest (uu_pull ls mapN h)) qe opts qid s = (Inl e, s')"
  using assms by (simp add: pull_def u_enqueueRequest_def Let_def)

text \<open>
  Claim C9: in \<open>__update__\<close> and \<open>__pull__\<close>, when a listener of the
  \<open>before...\<close> event throws an error (the listeners before it having returned), or
  the protected handler does, the source emits \<open>updateFail\<close> (\<open>pullFail\<close>) with
  the request and that error, as the last event, and throws the same error again; the
  public \<open>update\<close> and \<open>pull\<close> then reject with it.
\<close>

theorem request_failure_emits_fail_and_rethrows:
  "(\<forall>pre l post rs h'. \<not> log_contains (transformLog s) (id_t t)
        \<and> ls = pre @ l # post \<and> fulfillInSeries pre t no_hints = Inr (rs, h') \<and> l t h' = Inl e \<longrightarrow>
      uu_update ls mapN h t s =
        (Inl e, s\<lparr>emitted := emitted s @ [(''beforeUpdate'', [ArgTransform t, ArgHints]),
                                           (''updateFail'', [ArgTransform t, ArgError e])]\<rparr>))
 \<and> (\<forall>others hints s2. \<not> log_contains (transformLog s) (id_t t)
        \<and> fulfillInSeries ls t no_hints = Inr (others, hints)
        \<and> h t hints (emit ''beforeUpdate'' [ArgTransform t, ArgHints] s) = (Inl e, s2) \<longrightarrow>
      uu_update ls mapN h t s =
        (Inl e, s2\<lparr>emitted := emitted s2 @ [(''updateFail'', [ArgTransform t, ArgError e])]\<rparr>))
 \<and> (\<forall>pre l post rs h'.
        lq = pre @ l # post \<and> fulfillInSeries pre q no_hints = Inr (rs, h') \<and> l q h' = Inl e \<longrightarrow>
      uu_pull lq mapN hq q s =
        (Inl e, s\<lparr>emitted := emitted s @ [(''beforePull'', [ArgQuery q, ArgHints]),
                                           (''pullFail'', [ArgQuery q, ArgError e])]\<rparr>))
 \<and> (\<forall>others hints s2. fulfillInSeries lq q no_hints = Inr (others, hints)
        \<and> hq q hints (emit ''beforePull'' [ArgQuery q, ArgHints] s) = (Inl e, s2) \<longrightarrow>
      uu_pull lq mapN hq q s =
        (Inl e, s2\<lparr>emitted := emitted s2 @ [(''pullFail'', [ArgQuery q, ArgError e])]\<rparr>))
 \<and> (\<forall>s'. \<not> log_contains (transformLog s) (id_t (bt tx opts tid))
        \<and> uu_update ls mapN h (bt tx opts tid) s = (Inl e, s') \<longrightarrow>
      update bt (u_enqueueRequest (uu_update ls mapN h)) tx opts tid s = (Inl e, s'))
 \<and> (\<forall>s'. uu_pull lq mapN hq (bq qe opts qid) s = (Inl e, s') \<longrightarrow>
      pull bq (u_enqueueRequest (uu_pull lq mapN hq)) qe opts qid s = (Inl e, s'))"
  by (intro conjI allI impI)
     (auto intro!: uu_update_listener_throws uu_update_handler_throws uu_pull_listener_throws
        uu_pull_handler_throws update_rejects pull_rejects fulfillInSeries_throws)

subsection \<open>The request flow: the order of events\<close>

lemma update_resolves:
  assumes "\<not> log_contains (transformLog s) (id_t (bt tx opts tid))"
    and "uu_update ls mapN h (bt tx opts tid) s = (Inr fr, s')"
  shows "update bt (u_enqueueRequest (uu_update ls mapN h)) tx opts tid s =
     (Inr (if (\<exists>ro. opts = Some ro \<and> fullResponse ro = Some True) then Full fr else Data (data fr)),
      s')"
  using assms
  by (auto simp: update_def u_enqueueRequest_def Let_def truthy_def split: option.splits)

lemma pull_resolves:
  assumes "uu_pull ls mapN h (bq qe opts qid) s = (Inr fr, s')"
  shows "pull bq (u_enqueueRequest (uu_pull ls mapN h)) qe opts qid s =
     (Inr (if (\<exists>ro. opts = Some ro \<and> fullResponse ro = Some True) then Full fr
           else Transforms (produced fr)),
      s')"
  using assms
  by (auto simp: pull_def u_enqueueRequest_def Let_def truthy_def produced_def split: option.splits)

lemma uu_sync_memory_source:
  assumes "\<not> log_contains (transformLog s) (id_t t)"
    and "fulfillInSeries ls t () = Inr others"
  shows "fst (uu_sync ls (u_sync cu) t s) = None"
    and "emitted (snd (uu_sync ls (u_sync cu) t s)) =
           emitted s @ [(''beforeSync'', [ArgTransform t]), (''transform'', [ArgTransform t]),
                        (''sync'', [ArgTransform t])]"
    and "transformLog (snd (uu_sync ls (u_sync cu) t s)) = transformLog s @ [id_t t]"
proof -
  let ?s1 = "emit ''beforeSync'' [ArgTransform t] s"
  have n: "\<not> log_contains (transformLog ?s1) (id_t t)"
    using assms(1) by (simp add: emit_def)
  have f: "fst (u_sync cu t ?s1) = None" using n by (rule u_sync_new)
  obtain s2 where u: "u_sync cu t ?s1 = (None, s2)"
    using f by (cases "u_sync cu t ?s1") auto
  have s2: "s2 = snd (u_sync cu t ?s1)" by (simp add: u)
  have r: "uu_sync ls (u_sync cu) t s = (None, settleInSeries ''sync'' [ArgTransform t] s2)"
    using assms(2) u by (simp add: uu_sync_def Let_def)
  have e: "emitted s2 = emitted ?s1 @ [(''transform'', [ArgTransform t])]"
    unfolding s2 using n by (rule u_sync_new)
  have l: "transformLog s2 = transformLog ?s1 @ [id_t t]"
    unfolding s2 using n by (rule u_sync_new)
  show "fst (uu_sync ls (u_sync cu) t s) = None" by (simp add: r)
  show "emitted (snd (uu_sync ls (u_sync cu) t s)) =
           emitted s @ [(''beforeSync'', [ArgTransform t]), (''transform'', [ArgTransform t]),
                        (''sync'', [ArgTransform t])]"
    by (simp add: r settleInSeries_def emit_def e)
  show "transformLog (snd (uu_sync ls (u_sync cu) t s)) = transformLog s @ [id_t t]"
    by (simp add: r settleInSeries_def emit_def l)
qed

text \<open>
  Claim C4: a request succeeds and its handler returns transforms. Then the events the
  source emits after the handler are one \<open>transform\<close> event for each returned
  transform that the log did not hold, in order, followed by the post event
  (\<open>update\<close>, \<open>pull\<close>) with the response; the public promise resolves in the
  state in which all of them have been emitted. Returned transforms with distinct ids
  that are not yet logged each get their event. On a memory source, a \<open>sync\<close> of a
  transform that is not logged emits \<open>beforeSync\<close>, \<open>transform\<close>, \<open>sync\<close>
  in that order.
\<close>

theorem transform_events_precede_post_event:
  "(\<forall>others hints r s2. \<not> log_contains (transformLog s) (id_t t)
        \<and> fulfillInSeries ls t no_hints = Inr (others, hints)
        \<and> h t hints (emit ''beforeUpdate'' [ArgTransform t, ArgHints] s) = (Inr r, s2) \<longrightarrow>
      (\<exists>fr s4. uu_update ls mapN h t s = (Inr fr, s4)
         \<and> produced fr = produced r
         \<and> emitted s4 =
             emitted s2
             @ map (\<lambda>T. (''transform'', [ArgTransform T]))
                 (newly_logged (transformLog s2) (produced r))
             @ [(''update'', [ArgTransform t, ArgResponse fr])]
         \<and> (t = bt tx opts tid \<longrightarrow>
              update bt (u_enqueueRequest (uu_update ls mapN h)) tx opts tid s =
                (Inr (if (\<exists>ro. opts = Some ro \<and> fullResponse ro = Some True) then Full fr
                      else Data (data fr)), s4))))
 \<and> (\<forall>others hints r s2. fulfillInSeries lq q no_hints = Inr (others, hints)
        \<and> hq q hints (emit ''beforePull'' [ArgQuery q, ArgHints] s) = (Inr r, s2) \<longrightarrow>
      (\<exists>fr s4. uu_pull lq mapN hq q s = (Inr fr, s4)
         \<and> produced fr = produced r
         \<and> emitted s4 =
             emitted s2
             @ map (\<lambda>T. (''transform'', [ArgTransform T]))
                 (newly_logged (transformLog s2) (produced r))
             @ [(''pull'', [ArgQuery q, ArgResponse fr])]
         \<and> (q = bq qe opts qid \<longrightarrow>
              pull bq (u_enqueueRequest (uu_pull lq mapN hq)) qe opts qid s =
                (Inr (if (\<exists>ro. opts = Some ro \<and> fullResponse ro = Some True) then Full fr
                      else Transforms (produced fr)), s4))))
 \<and> (\<forall>log ts. distinct (map id_t ts) \<and> (\<forall>T \<in> set ts. \<not> log_contains log (id_t T)) \<longrightarrow>
      newly_logged log (ts :: 'o transform list) = ts)
 \<and> (\<forall>(m :: ('o, 'q, 'd, 'dt, 'src, 'c, 'b) memory_source) others.
        \<not> log_contains (transformLog m) (id_t t) \<and> fulfillInSeries ly t () = Inr others \<longrightarrow>
      fst (uu_sync ly (u_sync cu) t m) = None
      \<and> emitted (snd (uu_sync ly (u_sync cu) t m)) =
          emitted m @ [(''beforeSync'', [ArgTransform t]), (''transform'', [ArgTransform t]),
                       (''sync'', [ArgTransform t])])"
proof (intro conjI allI impI)
  fix others hints r s2
  assume a: "\<not> log_contains (transformLog s) (id_t t)
        \<and> fulfillInSeries ls t no_hints = Inr (others, hints)
        \<and> h t hints (emit ''beforeUpdate'' [ArgTransform t, ArgHints] s) = (Inr r, s2)"
  let ?fr = "with_sources (\<exists>ro. options t = Some ro \<and> includeSources ro = Some True) (mapN others) r"
  let ?s4 = "after_success ''update'' (ArgTransform t) ?fr s2"
  have u: "uu_update ls mapN h t s = (Inr ?fr, ?s4)"
    by (rule uu_update_success) (use a in blast)+
  have "t = bt tx opts tid \<longrightarrow>
              update bt (u_enqueueRequest (uu_update ls mapN h)) tx opts tid s =
                (Inr (if (\<exists>ro. opts = Some ro \<and> fullResponse ro = Some True) then Full ?fr
                      else Data (data ?fr)), ?s4)"
  proof (rule impI)
    assume e: "t = bt tx opts tid"
    from a u show "update bt (u_enqueueRequest (uu_update ls mapN h)) tx opts tid s =
                (Inr (if (\<exists>ro. opts = Some ro \<and> fullResponse ro = Some True) then Full ?fr
                      else Data (data ?fr)), ?s4)"
      unfolding e by (intro update_resolves) blast+
  qed
  with u show "\<exists>fr s4. uu_update ls mapN h t s = (Inr fr, s4)
         \<and> produced fr = produced r
         \<and> emitted s4 =
             emitted s2
             @ map (\<lambda>T. (''transform'', [ArgTransform T]))
                 (newly_logged (transformLog s2) (produced r))
             @ [(''update'', [ArgTransform t, ArgResponse fr])]
         \<and> (t = bt tx opts tid \<longrightarrow>
              update bt (u_enqueueRequest (uu_update ls mapN h)) tx opts tid s =
                (Inr (if (\<exists>ro. opts = Some ro \<and> fullResponse ro = Some True) then Full fr
                      else Data (data fr)), s4))"
    by (intro exI [of _ ?fr] exI [of _ ?s4]) (simp add: after_success_def)
next
  fix others hints r s2
  assume a: "fulfillInSeries lq q no_hints = Inr (others, hints)
        \<and> hq q hints (emit ''beforePull'' [ArgQuery q, ArgHints] s) = (Inr r, s2)"
  let ?fr = "with_sources (others \<noteq> []) (mapN others) r"
  let ?s4 = "after_success ''pull'' (ArgQuery q) ?fr s2"
  have u: "uu_pull lq mapN hq q s = (Inr ?fr, ?s4)"
    by (rule uu_pull_success) (use a in blast)+
  have "q = bq qe opts qid \<longrightarrow>
              pull bq (u_enqueueRequest (uu_pull lq mapN hq)) qe opts qid s =
                (Inr (if (\<exists>ro. opts = Some ro \<and> fullResponse ro = Some True) then Full ?fr
                      else Transforms (produced ?fr)), ?s4)"
  proof (rule impI)
    assume e: "q = bq qe opts qid"
    from u show "pull bq (u_enqueueRequest (uu_pull lq mapN hq)) qe opts qid s =
                (Inr (if (\<exists>ro. opts = Some ro \<and> fullResponse ro = Some True) then Full ?fr
                      else Transforms (produced ?fr)), ?s4)"
      unfolding e by (intro pull_resolves) blast+
  qed
  with u show "\<exists>fr s4. uu_pull lq mapN hq q s = (Inr fr, s4)
         \<and> produced fr = produced r
         \<and> emitted s4 =
             emitted s2
             @ map (\<lambda>T. (''transform'', [ArgTransform T]))
                 (newly_logged (transformLog s2) (produced r))
             @ [(''pull'', [ArgQuery q, ArgResponse fr])]
         \<and> (q = bq qe opts qid \<longrightarrow>
              pull bq (u_enqueueRequest (uu_pull lq mapN hq)) qe opts qid s =
                (Inr (if (\<exists>ro. opts = Some ro \<and> fullResponse ro = Some True) then Full fr
                      else Transforms (produced fr)), s4))"
    by (intro exI [of _ ?fr] exI [of _ ?s4]) (simp add: after_success_def)
next
  fix log and ts :: "'o transform list"
  assume "distinct (map id_t ts) \<and> (\<forall>T \<in> set ts. \<not> log_contains log (id_t T))"
  then show "newly_logged log ts = ts" by (intro newly_logged_all) simp_all
next
  fix m :: "('o, 'q, 'd, 'dt, 'src, 'c, 'b) memory_source" and others
  assume "\<not> log_contains (transformLog m) (id_t t) \<and> fulfillInSeries ly t () = Inr others"
  then show "fst (uu_sync ly (u_sync cu) t m) = None"
    by (intro uu_sync_memory_source(1)) simp_all
next
  fix m :: "('o, 'q, 'd, 'dt, 'src, 'c, 'b) memory_source" and others
  assume "\<not> log_contains (transformLog m) (id_t t) \<and> fulfillInSeries ly t () = Inr others"
  then show "emitted (snd (uu_sync ly (u_sync cu) t m)) =
          emitted m @ [(''beforeSync'', [ArgTransform t]), (''transform'', [ArgTransform t]),
                       (''sync'', [ArgTransform t])]"
    by (intro uu_sync_memory_source(2)) simp_all
qed

lemma logged_after_transformed:
  "id_t ` set ts \<subseteq> set (log @ map id_t (newly_logged log ts))"
proof (induction ts arbitrary: log)
  case Nil
  then show ?case by simp
next
  case (Cons t ts)
  show ?case
  proof (cases "log_contains log (id_t t)")
    case True
    with Cons [of log] show ?thesis by (auto simp: log_contains_def)
  next
    case False
    with Cons [of "log_append log (id_t t)"] show ?thesis
      by (auto simp: log_append_def)
  qed
qed

lemma update_logged:
  assumes "log_contains (transformLog s) (id_t (buildTransform tx opts tid))"
  shows "update buildTransform enq tx opts tid s =
        (Inr (if (\<exists>ro. opts = Some ro \<and> fullResponse ro = Some True)
              then Full \<lparr>data = None, details = None, transforms = Some [], sources = None\<rparr>
              else Transforms []), s)"
  using assms by (auto simp: update_def truthy_def split: option.splits)

subsection \<open>The request flow: transforms that are already logged\<close>

lemma update_rechecked:
  assumes "\<not> log_contains (transformLog s) (id_t (bt tx opts tid))"
    and "enq ''update'' (bt tx opts tid) s = uu_update ls mapN h (bt tx opts tid) sq"
    and "log_contains (transformLog sq) (id_t (bt tx opts tid))"
  shows "update bt enq tx opts tid s =
     (Inr (if (\<exists>ro. opts = Some ro \<and> fullResponse ro = Some True)
           then Full \<lparr>data = None, details = None, transforms = Some [], sources = None\<rparr>
           else Data None), sq)"
  using assms
  by (auto simp: update_def uu_update_def Let_def truthy_def split: option.splits)

lemma ex_first_task:
  "\<exists>fr. uu_update [] ex_mapNamed ex_handler t_l1 ex_fresh = (Inr fr, ex_after_l1)
        \<and> log_contains (transformLog ex_after_l1) (id_t t_l1)"
proof -
  let ?s1 = "emit ''beforeUpdate'' [ArgTransform t_l1, ArgHints] ex_fresh"
  let ?r = "\<lparr>data = None, details = None, transforms = Some [t_l1], sources = None\<rparr>
              :: (unit, unit, string, unit) full_response"
  let ?s2 = "snd (u_applyTransform register_update t_l1 ?s1)"
  let ?fr = "with_sources (\<exists>ro. options t_l1 = Some ro \<and> includeSources ro = Some True)
               (ex_mapNamed []) ?r"
  have n: "\<not> log_contains (transformLog ex_fresh) (id_t t_l1)"
    by (simp add: ex_fresh_def log_contains_def)
  have p0: "fulfillInSeries [] t_l1 (no_hints :: (unit, unit) response_hints) = Inr ([], no_hints)"
    by simp
  have h: "ex_handler t_l1 no_hints ?s1 = (Inr ?r, ?s2)"
    by (simp add: ex_handler_def)
  have u: "uu_update [] ex_mapNamed ex_handler t_l1 ex_fresh
           = (Inr ?fr, after_success ''update'' (ArgTransform t_l1) ?fr ?s2)"
    using n p0 h by (rule uu_update_success)
  then have e: "ex_after_l1 = after_success ''update'' (ArgTransform t_l1) ?fr ?s2"
    by (simp add: ex_after_l1_def u_enqueueRequest_def)
  have "id_t t_l1 \<in> id_t ` set (produced ?fr)"
    by (simp add: produced_def with_sources_def t_l1_def)
  then have "id_t t_l1 \<in> set (transformLog ex_after_l1)"
    using logged_after_transformed [of "produced ?fr" "transformLog ?s2"]
    unfolding e by (auto simp: after_success_def)
  then have "log_contains (transformLog ex_after_l1) (id_t t_l1)"
    by (simp add: log_contains_def)
  with u e show ?thesis by simp
qed

text \<open>
  Claim C1 says that \<open>update(t)\<close> resolves with an empty array of transforms, when
  \<open>options.fullResponse\<close> is falsy, also when the id of \<open>t\<close> is found in the log
  by the second check only, the one at the head of the task. Take a source that has
  logged nothing and a queue in which an \<open>update\<close> task for \<open>l1\<close> is waiting:
  \<open>update(l1)\<close> passes the first check and is enqueued; the waiting task logs
  \<open>l1\<close>; the new task finds the id, does no work and returns
  \<open>{ transforms: [] }\<close>; and \<open>update\<close> resolves with the member \<open>data\<close> of that
  response, which is \<open>undefined\<close>, not with an empty array.
\<close>

theorem update_of_logged_transform_counterexample:
  "\<not> log_contains (transformLog ex_fresh) (id_t t_l1)
 \<and> log_contains (transformLog ex_after_l1) (id_t t_l1)
 \<and> uu_update [] ex_mapNamed ex_handler t_l1 ex_after_l1
      = (Inr \<lparr>data = None, details = None, transforms = Some [], sources = None\<rparr>, ex_after_l1)
 \<and> update ex_buildTransform ex_enqueue_behind (TransformInput t_l1) None None ex_fresh
      = (Inr (Data None), ex_after_l1)
 \<and> fst (update ex_buildTransform ex_enqueue_behind (TransformInput t_l1) None None ex_fresh)
      \<noteq> Inr (Transforms [])"
proof -
  have n: "\<not> log_contains (transformLog ex_fresh) (id_t t_l1)"
    by (simp add: ex_fresh_def log_contains_def)
  have b: "ex_buildTransform (TransformInput t_l1) None None = t_l1"
    by (simp add: ex_buildTransform_def)
  from ex_first_task have c: "log_contains (transformLog ex_after_l1) (id_t t_l1)"
    by blast
  then have r: "uu_update [] ex_mapNamed ex_handler t_l1 ex_after_l1
      = (Inr \<lparr>data = None, details = None, transforms = Some [], sources = None\<rparr>, ex_after_l1)"
    by (simp add: uu_update_def)
  have q: "ex_enqueue_behind ''update'' t_l1 ex_fresh
           = uu_update [] ex_mapNamed ex_handler t_l1 ex_after_l1"
    by (simp add: ex_enqueue_behind_def ex_after_l1_def u_enqueueRequest_def)
  have "update ex_buildTransform ex_enqueue_behind (TransformInput t_l1) None None ex_fresh
      = (Inr (Data None), ex_after_l1)"
    using update_rechecked [of ex_fresh ex_buildTransform "TransformInput t_l1" None None
        ex_enqueue_behind "[]" ex_mapNamed ex_handler ex_after_l1] n c q
    by (simp add: b)
  with n c r show ?thesis by simp
qed

text \<open>
  Claim C1, amended. When the id of the transform built from the arguments of
  \<open>update\<close> is already in the transform log, \<open>update\<close> leaves the source unchanged
  (nothing is enqueued, no event is emitted, the handler is not called) and resolves
  with an empty array of transforms, or with the full response \<open>{ transforms: [] }\<close>
  when \<open>options.fullResponse\<close> is truthy. The second check, at the head of the task
  \<open>__update__\<close>, likewise leaves the source unchanged and returns
  \<open>{ transforms: [] }\<close>. When the id is found by that second check only, the task
  running on the source as the queue hands it over, \<open>update\<close> leaves that source
  unchanged and resolves with the full response \<open>{ transforms: [] }\<close> when
  \<open>options.fullResponse\<close> is truthy, and otherwise with the member \<open>data\<close> of
  that response, which is \<open>undefined\<close>. Of two calls of \<open>update\<close> with the same
  transform, the second made when the first has resolved, and the first succeeding
  with a handler that reports the transform, the second does no work and resolves with
  empty transforms.
\<close>

theorem update_of_logged_transform:
  "(log_contains (transformLog s) (id_t (buildTransform tx opts tid)) \<longrightarrow>
      update buildTransform enq tx opts tid s =
        (Inr (if (\<exists>ro. opts = Some ro \<and> fullResponse ro = Some True)
              then Full \<lparr>data = None, details = None, transforms = Some [], sources = None\<rparr>
              else Transforms []), s))
 \<and> (log_contains (transformLog s) (id_t t) \<longrightarrow>
      uu_update ls mapN h t s =
        (Inr \<lparr>data = None, details = None, transforms = Some [], sources = None\<rparr>, s))
 \<and> (\<forall>sq.
        t = buildTransform tx opts tid
        \<and> \<not> log_contains (transformLog s) (id_t t)
        \<and> enq ''update'' t s = uu_update ls mapN h t sq
        \<and> log_contains (transformLog sq) (id_t t) \<longrightarrow>
      update buildTransform enq tx opts tid s =
        (Inr (if (\<exists>ro. opts = Some ro \<and> fullResponse ro = Some True)
              then Full \<lparr>data = None, details = None, transforms = Some [], sources = None\<rparr>
              else Data None), sq))
 \<and> (\<forall>others hints r s2.
        t = buildTransform tx opts tid
        \<and> \<not> log_contains (transformLog s) (id_t t)
        \<and> fulfillInSeries ls t no_hints = Inr (others, hints)
        \<and> h t hints (emit ''beforeUpdate'' [ArgTransform t, ArgHints] s) = (Inr r, s2)
        \<and> id_t t \<in> id_t ` set (produced r) \<longrightarrow>
      (\<exists>res s'. update buildTransform (u_enqueueRequest (uu_update ls mapN h)) tx opts tid s
                   = (Inr res, s')
         \<and> log_contains (transformLog s') (id_t t)
         \<and> update buildTransform (u_enqueueRequest (uu_update ls mapN h)) tx opts tid s' =
             (Inr (if (\<exists>ro. opts = Some ro \<and> fullResponse ro = Some True)
                   then Full \<lparr>data = None, details = None, transforms = Some [], sources = None\<rparr>
                   else Transforms []), s')))"
proof (intro conjI allI impI)
  assume "log_contains (transformLog s) (id_t (buildTransform tx opts tid))"
  then show "update buildTransform enq tx opts tid s =
        (Inr (if (\<exists>ro. opts = Some ro \<and> fullResponse ro = Some True)
              then Full \<lparr>data = None, details = None, transforms = Some [], sources = None\<rparr>
              else Transforms []), s)"
    by (rule update_logged)
next
  assume "log_contains (transformLog s) (id_t t)"
  then show "uu_update ls mapN h t s =
        (Inr \<lparr>data = None, details = None, transforms = Some [], sources = None\<rparr>, s)"
    by (simp add: uu_update_def)
next
  fix sq
  assume a: "t = buildTransform tx opts tid
        \<and> \<not> log_contains (transformLog s) (id_t t)
        \<and> enq ''update'' t s = uu_update ls mapN h t sq
        \<and> log_contains (transformLog sq) (id_t t)"
  show "update buildTransform enq tx opts tid s =
     (Inr (if (\<exists>ro. opts = Some ro \<and> fullResponse ro = Some True)
           then Full \<lparr>data = None, details = None, transforms = Some [], sources = None\<rparr>
           else Data None), sq)"
    using a by (intro update_rechecked [where ls = ls and mapN = mapN and h = h]) auto
next
  fix others hints r s2
  assume a: "t = buildTransform tx opts tid
        \<and> \<not> log_contains (transformLog s) (id_t t)
        \<and> fulfillInSeries ls t no_hints = Inr (others, hints)
        \<and> h t hints (emit ''beforeUpdate'' [ArgTransform t, ArgHints] s) = (Inr r, s2)
        \<and> id_t t \<in> id_t ` set (produced r)"
  let ?fr = "with_sources (\<exists>ro. options t = Some ro \<and> includeSources ro = Some True) (mapN others) r"
  let ?s' = "after_success ''update'' (ArgTransform t) ?fr s2"
  let ?res = "if (\<exists>ro. opts = Some ro \<and> fullResponse ro = Some True) then Full ?fr
              else Data (data ?fr)"
  have t: "t = buildTransform tx opts tid" using a by simp
  have u: "uu_update ls mapN h t s = (Inr ?fr, ?s')"
    by (rule uu_update_success) (use a in blast)+
  have first: "update buildTransform (u_enqueueRequest (uu_update ls mapN h)) tx opts tid s
                = (Inr ?res, ?s')"
    using a u unfolding t by (intro update_resolves) blast+
  have "id_t t \<in> set (transformLog ?s')"
    using a logged_after_transformed [of "produced r" "transformLog s2"]
    by (auto simp: after_success_def)
  then have logged: "log_contains (transformLog ?s') (id_t t)"
    by (simp add: log_contains_def)
  then have "log_contains (transformLog ?s') (id_t (buildTransform tx opts tid))"
    using t by simp
  then have second: "update buildTransform (u_enqueueRequest (uu_update ls mapN h)) tx opts tid ?s' =
             (Inr (if (\<exists>ro. opts = Some ro \<and> fullResponse ro = Some True)
                   then Full \<lparr>data = None, details = None, transforms = Some [], sources = None\<rparr>
                   else Transforms []), ?s')"
    by (rule update_logged)
  from first logged second
  show "\<exists>res s'. update buildTransform (u_enqueueRequest (uu_update ls mapN h)) tx opts tid s
                   = (Inr res, s')
         \<and> log_contains (transformLog s') (id_t t)
         \<and> update buildTransform (u_enqueueRequest (uu_update ls mapN h)) tx opts tid s' =
             (Inr (if (\<exists>ro. opts = Some ro \<and> fullResponse ro = Some True)
                   then Full \<lparr>data = None, details = None, transforms = Some [], sources = None\<rparr>
                   else Transforms []), s')"
    by blast
qed

text \<open>
  The amended C1 on a source whose log holds \<open>l1\<close>, on a fresh source updated
  twice with \<open>l1\<close>, and on a fresh source whose queue holds a waiting task for
  \<open>l1\<close>.
\<close>

theorem update_of_logged_transform_witness:
  "log_contains (transformLog ex_s1) (id_t (ex_buildTransform (TransformInput t_l1) None None))
 \<and> update ex_buildTransform (u_enqueueRequest (uu_update [] ex_mapNamed ex_handler))
      (TransformInput t_l1) None None ex_s1 = (Inr (Transforms []), ex_s1)
 \<and> update ex_buildTransform (u_enqueueRequest (uu_update [] ex_mapNamed ex_handler))
      (TransformInput t_l1) (Some \<lparr>fullResponse = Some True, includeSources = None\<rparr>) None ex_s1
    = (Inr (Full \<lparr>data = None, details = None, transforms = Some [], sources = None\<rparr>), ex_s1)
 \<and> log_contains (transformLog ex_s1) (id_t t_l1)
 \<and> uu_update [] ex_mapNamed ex_handler t_l1 ex_s1
    = (Inr \<lparr>data = None, details = None, transforms = Some [], sources = None\<rparr>, ex_s1)
 \<and> \<not> log_contains (transformLog ex_fresh) (id_t t_l1)
 \<and> ex_enqueue_behind ''update'' t_l1 ex_fresh
    = uu_update [] ex_mapNamed ex_handler t_l1 ex_after_l1
 \<and> log_contains (transformLog ex_after_l1) (id_t t_l1)
 \<and> update ex_buildTransform ex_enqueue_behind (TransformInput t_l1)
      (Some \<lparr>fullResponse = Some True, includeSources = None\<rparr>) None ex_fresh
    = (Inr (Full \<lparr>data = None, details = None, transforms = Some [], sources = None\<rparr>),
       ex_after_l1)
 \<and> update ex_buildTransform (u_enqueueRequest (uu_update [] ex_mapNamed ex_handler))
      (TransformInput t_l1) None None
      (snd (update ex_buildTransform (u_enqueueRequest (uu_update [] ex_mapNamed ex_handler))
              (TransformInput t_l1) None None ex_fresh))
    = (Inr (Transforms []),
       snd (update ex_buildTransform (u_enqueueRequest (uu_update [] ex_mapNamed ex_handler))
              (TransformInput t_l1) None None ex_fresh))"
proof -
  let ?s1 = "emit ''beforeUpdate'' [ArgTransform t_l1, ArgHints] ex_fresh"
  let ?r = "\<lparr>data = None, details = None, transforms = Some [t_l1], sources = None\<rparr>
              :: (unit, unit, string, unit) full_response"
  have c: "log_contains (transformLog ex_s1) (id_t t_l1)"
    by (simp add: ex_s1_fields t_l1_def log_contains_def)
  have n: "\<not> log_contains (transformLog ex_fresh) (id_t t_l1)"
    by (simp add: ex_fresh_def log_contains_def)
  have b: "ex_buildTransform (TransformInput t_l1) opts None = t_l1" for opts
    by (simp add: ex_buildTransform_def)
  have p0: "fulfillInSeries [] t_l1 (no_hints :: (unit, unit) response_hints) = Inr ([], no_hints)"
    by simp
  have h: "ex_handler t_l1 no_hints ?s1 = (Inr ?r, snd (u_applyTransform register_update t_l1 ?s1))"
    by (simp add: ex_handler_def)
  have m: "id_t t_l1 \<in> id_t ` set (produced ?r)"
    by (simp add: produced_def)
  have q: "ex_enqueue_behind ''update'' t_l1 ex_fresh
           = uu_update [] ex_mapNamed ex_handler t_l1 ex_after_l1"
    by (simp add: ex_enqueue_behind_def ex_after_l1_def u_enqueueRequest_def)
  from ex_first_task have l: "log_contains (transformLog ex_after_l1) (id_t t_l1)"
    by blast
  note A = update_of_logged_transform
    [where s = ex_s1 and buildTransform = ex_buildTransform and tx = "TransformInput t_l1"
       and opts = None and tid = None
       and enq = "u_enqueueRequest (uu_update [] ex_mapNamed ex_handler)" and t = t_l1
       and ls = "[]" and mapN = ex_mapNamed and h = ex_handler]
  note B = update_of_logged_transform
    [where s = ex_s1 and buildTransform = ex_buildTransform and tx = "TransformInput t_l1"
       and opts = "Some \<lparr>fullResponse = Some True, includeSources = None\<rparr>" and tid = None
       and enq = "u_enqueueRequest (uu_update [] ex_mapNamed ex_handler)" and t = t_l1
       and ls = "[]" and mapN = ex_mapNamed and h = ex_handler]
  note C = update_of_logged_transform
    [where s = ex_fresh and buildTransform = ex_buildTransform and tx = "TransformInput t_l1"
       and opts = None and tid = None
       and enq = "u_enqueueRequest (uu_update [] ex_mapNamed ex_handler)" and t = t_l1
       and ls = "[]" and mapN = ex_mapNamed and h = ex_handler]
  note D = update_of_logged_transform
    [where s = ex_fresh and buildTransform = ex_buildTransform and tx = "TransformInput t_l1"
       and opts = "Some \<lparr>fullResponse = Some True, includeSources = None\<rparr>" and tid = None
       and enq = ex_enqueue_behind and t = t_l1
       and ls = "[]" and mapN = ex_mapNamed and h = ex_handler]
  from D [THEN conjunct2, THEN conjunct2, THEN conjunct1, rule_format, of ex_after_l1] b n q l
  have third: "update ex_buildTransform ex_enqueue_behind (TransformInput t_l1)
      (Some \<lparr>fullResponse = Some True, includeSources = None\<rparr>) None ex_fresh
    = (Inr (Full \<lparr>data = None, details = None, transforms = Some [], sources = None\<rparr>),
       ex_after_l1)"
    by simp
  from C [THEN conjunct2, THEN conjunct2, THEN conjunct2, rule_format, of "[]" no_hints ?r
            "snd (u_applyTransform register_update t_l1 ?s1)"] b n p0 h m
  obtain res s' where
    first: "update ex_buildTransform (u_enqueueRequest (uu_update [] ex_mapNamed ex_handler))
              (TransformInput t_l1) None None ex_fresh = (Inr res, s')"
    and second: "update ex_buildTransform (u_enqueueRequest (uu_update [] ex_mapNamed ex_handler))
              (TransformInput t_l1) None None s' = (Inr (Transforms []), s')"
    by auto
  from first have "snd (update ex_buildTransform (u_enqueueRequest (uu_update [] ex_mapNamed ex_handler))
              (TransformInput t_l1) None None ex_fresh) = s'"
    by simp
  with A B c n q l third second show ?thesis by (simp add: b)
qed

text \<open>
  C9 on a fresh source: a listener that throws after one that passes, and a handler
  that throws, for \<open>update\<close> and for \<open>pull\<close>.
\<close>

theorem request_failure_emits_fail_and_rethrows_witness:
  "\<not> log_contains (transformLog ex_fresh) (id_t t_l1)
 \<and> fulfillInSeries [ex_passing_listener] t_l1 no_hints = Inr ([None], no_hints)
 \<and> ex_failing_listener t_l1 no_hints = Inl (Failure ''not allowed'')
 \<and> uu_update [ex_passing_listener, ex_failing_listener, ex_passing_listener] ex_mapNamed
      ex_handler t_l1 ex_fresh
    = (Inl (Failure ''not allowed''),
       ex_fresh\<lparr>emitted := [(''beforeUpdate'', [ArgTransform t_l1, ArgHints]),
                              (''updateFail'', [ArgTransform t_l1, ArgError (Failure ''not allowed'')])]\<rparr>)
 \<and> ex_failing_handler t_l1 no_hints (emit ''beforeUpdate'' [ArgTransform t_l1, ArgHints] ex_fresh)
    = (Inl (Failure ''server error''), emit ''beforeUpdate'' [ArgTransform t_l1, ArgHints] ex_fresh)
 \<and> uu_update [ex_passing_listener] ex_mapNamed ex_failing_handler t_l1 ex_fresh
    = (Inl (Failure ''server error''),
       ex_fresh\<lparr>emitted := [(''beforeUpdate'', [ArgTransform t_l1, ArgHints]),
                              (''updateFail'', [ArgTransform t_l1, ArgError (Failure ''server error'')])]\<rparr>)
 \<and> update ex_buildTransform (u_enqueueRequest (uu_update [ex_passing_listener] ex_mapNamed ex_failing_handler))
      (TransformInput t_l1) None None ex_fresh
    = (Inl (Failure ''server error''),
       ex_fresh\<lparr>emitted := [(''beforeUpdate'', [ArgTransform t_l1, ArgHints]),
                              (''updateFail'', [ArgTransform t_l1, ArgError (Failure ''server error'')])]\<rparr>)
 \<and> uu_pull [ex_failing_listener] ex_mapNamed ex_pull_handler () ex_fresh
    = (Inl (Failure ''not allowed''),
       ex_fresh\<lparr>emitted := [(''beforePull'', [ArgQuery (), ArgHints]),
                              (''pullFail'', [ArgQuery (), ArgError (Failure ''not allowed'')])]\<rparr>)
 \<and> uu_pull [] ex_mapNamed ex_failing_handler () ex_fresh
    = (Inl (Failure ''server error''),
       ex_fresh\<lparr>emitted := [(''beforePull'', [ArgQuery (), ArgHints]),
                              (''pullFail'', [ArgQuery (), ArgError (Failure ''server error'')])]\<rparr>)
 \<and> pull (\<lambda>qe opts qid. ()) (u_enqueueRequest (uu_pull [] ex_mapNamed ex_failing_handler))
      () None None ex_fresh
    = (Inl (Failure ''server error''),
       ex_fresh\<lparr>emitted := [(''beforePull'', [ArgQuery (), ArgHints]),
                              (''pullFail'', [ArgQuery (), ArgError (Failure ''server error'')])]\<rparr>)"
proof -
  let ?sU = "ex_fresh\<lparr>emitted := [(''beforeUpdate'', [ArgTransform t_l1, ArgHints]),
               (''updateFail'', [ArgTransform t_l1, ArgError (Failure ''server error'')])]\<rparr>"
  let ?sP = "ex_fresh\<lparr>emitted := [(''beforePull'', [ArgQuery (), ArgHints]),
               (''pullFail'', [ArgQuery (), ArgError (Failure ''server error'')])]\<rparr>"
  have n: "\<not> log_contains (transformLog ex_fresh) (id_t t_l1)"
    by (simp add: ex_fresh_def log_contains_def)
  have e: "emitted ex_fresh = []" by (simp add: ex_fresh_def)
  have b: "ex_buildTransform (TransformInput t_l1) None None = t_l1"
    by (simp add: ex_buildTransform_def)
  have p: "fulfillInSeries [ex_passing_listener] t_l1 (no_hints :: (unit, unit) response_hints)
           = Inr ([None], no_hints)"
    by (simp add: ex_passing_listener_def)
  have p0: "fulfillInSeries [] () (no_hints :: (unit, unit) response_hints) = Inr ([], no_hints)"
    by simp
  have f: "ex_failing_listener t_l1 (no_hints :: (unit, unit) response_hints)
           = Inl (Failure ''not allowed'')"
    "ex_failing_listener () (no_hints :: (unit, unit) response_hints)
           = Inl (Failure ''not allowed'')"
    by (simp_all add: ex_failing_listener_def)
  have hU: "ex_failing_handler t_l1 no_hints (emit ''beforeUpdate'' [ArgTransform t_l1, ArgHints] ex_fresh)
    = (Inl (Failure ''server error''), emit ''beforeUpdate'' [ArgTransform t_l1, ArgHints] ex_fresh)"
    by (simp add: ex_failing_handler_def)
  have hP: "ex_failing_handler () no_hints (emit ''beforePull'' [ArgQuery (), ArgHints] ex_fresh)
    = (Inl (Failure ''server error''), emit ''beforePull'' [ArgQuery (), ArgHints] ex_fresh)"
    by (simp add: ex_failing_handler_def)
  note L = request_failure_emits_fail_and_rethrows
    [of ex_fresh t_l1 "[ex_passing_listener, ex_failing_listener, ex_passing_listener]"
        "Failure ''not allowed''" ex_mapNamed ex_handler
        "[ex_failing_listener]" "()" ex_pull_handler]
  note H = request_failure_emits_fail_and_rethrows
    [of ex_fresh t_l1 "[ex_passing_listener]" "Failure ''server error''" ex_mapNamed
        ex_failing_handler "[]" "()" ex_failing_handler ex_buildTransform "TransformInput t_l1"
        None None "\<lambda>qe opts qid. ()" "()"]
  have 1: "uu_update [ex_passing_listener, ex_failing_listener, ex_passing_listener] ex_mapNamed
      ex_handler t_l1 ex_fresh
    = (Inl (Failure ''not allowed''),
       ex_fresh\<lparr>emitted := [(''beforeUpdate'', [ArgTransform t_l1, ArgHints]),
                              (''updateFail'', [ArgTransform t_l1, ArgError (Failure ''not allowed'')])]\<rparr>)"
    using L [THEN conjunct1, rule_format,
        of "[ex_passing_listener]" ex_failing_listener "[ex_passing_listener]" "[None]" no_hints]
      n p f by (simp add: e)
  have 2: "uu_pull [ex_failing_listener] ex_mapNamed ex_pull_handler () ex_fresh
    = (Inl (Failure ''not allowed''),
       ex_fresh\<lparr>emitted := [(''beforePull'', [ArgQuery (), ArgHints]),
                              (''pullFail'', [ArgQuery (), ArgError (Failure ''not allowed'')])]\<rparr>)"
    using L [THEN conjunct2, THEN conjunct2, THEN conjunct1, rule_format,
        of "[]" ex_failing_listener "[]" "[]" no_hints]
      f by (simp add: e)
  have 3: "uu_update [ex_passing_listener] ex_mapNamed ex_failing_handler t_l1 ex_fresh
    = (Inl (Failure ''server error''), ?sU)"
    using H [THEN conjunct2, THEN conjunct1, rule_format, of "[None]" no_hints
        "emit ''beforeUpdate'' [ArgTransform t_l1, ArgHints] ex_fresh"]
      n p hU by (simp add: e emit_def)
  have 4: "uu_pull [] ex_mapNamed ex_failing_handler () ex_fresh
    = (Inl (Failure ''server error''), ?sP)"
    using H [THEN conjunct2, THEN conjunct2, THEN conjunct2, THEN conjunct1, rule_format,
        of "[]" no_hints "emit ''beforePull'' [ArgQuery (), ArgHints] ex_fresh"]
      p0 hP by (simp add: e emit_def)
  have 5: "update ex_buildTransform
      (u_enqueueRequest (uu_update [ex_passing_listener] ex_mapNamed ex_failing_handler))
      (TransformInput t_l1) None None ex_fresh = (Inl (Failure ''server error''), ?sU)"
    using H [THEN conjunct2, THEN conjunct2, THEN conjunct2, THEN conjunct2, THEN conjunct1,
        rule_format, of ?sU] n 3 by (simp add: b)
  have 6: "pull (\<lambda>qe opts qid. ()) (u_enqueueRequest (uu_pull [] ex_mapNamed ex_failing_handler))
      () None None ex_fresh = (Inl (Failure ''server error''), ?sP)"
    using H [THEN conjunct2, THEN conjunct2, THEN conjunct2, THEN conjunct2, THEN conjunct2,
        rule_format, of ?sP] 4 by simp
  from n p f(1) hU 1 2 3 4 5 6 show ?thesis by simp
qed

text \<open>
  C4 on a fresh source: an \<open>update\<close>, a \<open>pull\<close> and a \<open>sync\<close>, with the
  events each of them emits.
\<close>

theorem transform_events_precede_post_event_witness:
  "\<not> log_contains (transformLog ex_fresh) (id_t t_l1)
 \<and> fulfillInSeries [ex_passing_listener] t_l1 no_hints = Inr ([None], no_hints)
 \<and> fst (uu_update [ex_passing_listener] ex_mapNamed ex_handler t_l1 ex_fresh) =
      Inr \<lparr>data = None, details = None, transforms = Some [t_l1], sources = None\<rparr>
 \<and> emitted (snd (uu_update [ex_passing_listener] ex_mapNamed ex_handler t_l1 ex_fresh)) =
      [(''beforeUpdate'', [ArgTransform t_l1, ArgHints]),
       (''transform'', [ArgTransform t_l1]),
       (''update'', [ArgTransform t_l1,
          ArgResponse \<lparr>data = None, details = None, transforms = Some [t_l1], sources = None\<rparr>])]
 \<and> emitted (snd (update ex_buildTransform
        (u_enqueueRequest (uu_update [ex_passing_listener] ex_mapNamed ex_handler))
        (TransformInput t_l1) None None ex_fresh)) =
      [(''beforeUpdate'', [ArgTransform t_l1, ArgHints]),
       (''transform'', [ArgTransform t_l1]),
       (''update'', [ArgTransform t_l1,
          ArgResponse \<lparr>data = None, details = None, transforms = Some [t_l1], sources = None\<rparr>])]
 \<and> emitted (snd (uu_pull [] ex_mapNamed ex_pull_handler () ex_fresh)) =
      [(''beforePull'', [ArgQuery (), ArgHints]),
       (''transform'', [ArgTransform t_b1]),
       (''pull'', [ArgQuery (),
          ArgResponse \<lparr>data = None, details = None, transforms = Some [t_b1], sources = None\<rparr>])]
 \<and> emitted (snd (uu_sync [ex_sync_listener] (u_sync register_update) t_l1 ex_fresh)) =
      [(''beforeSync'', [ArgTransform t_l1]), (''transform'', [ArgTransform t_l1]),
       (''sync'', [ArgTransform t_l1])]"
proof -
  let ?r = "\<lparr>data = None, details = None, transforms = Some [t_l1], sources = None\<rparr>
              :: (unit, unit, string, unit) full_response"
  let ?rp = "\<lparr>data = None, details = None, transforms = Some [t_b1], sources = None\<rparr>
              :: (unit, unit, string, unit) full_response"
  let ?s1 = "emit ''beforeUpdate'' [ArgTransform t_l1, ArgHints] ex_fresh"
  let ?p1 = "emit ''beforePull'' [ArgQuery (), ArgHints] ex_fresh"
  have n: "\<not> log_contains (transformLog ex_fresh) (id_t t_l1)"
    by (simp add: ex_fresh_def log_contains_def)
  have e: "emitted ex_fresh = []" "transformLog ex_fresh = []" by (simp_all add: ex_fresh_def)
  have b: "ex_buildTransform (TransformInput t_l1) None None = t_l1"
    by (simp add: ex_buildTransform_def)
  have o: "options t_l1 = None" "id_t t_l1 = ''l1''" "id_t t_b1 = ''b1''"
    by (simp_all add: t_l1_def t_b1_def)
  have p: "fulfillInSeries [ex_passing_listener] t_l1 (no_hints :: (unit, unit) response_hints)
           = Inr ([None], no_hints)"
    by (simp add: ex_passing_listener_def)
  have p0: "fulfillInSeries [] () (no_hints :: (unit, unit) response_hints) = Inr ([], no_hints)"
    by simp
  have y0: "fulfillInSeries [ex_sync_listener] t_l1 () = Inr ([None], ())"
    by (simp add: ex_sync_listener_def)
  have h: "ex_handler t_l1 no_hints ?s1 = (Inr ?r, snd (u_applyTransform register_update t_l1 ?s1))"
    by (simp add: ex_handler_def)
  have hs: "emitted (snd (u_applyTransform register_update t_l1 ?s1))
              = [(''beforeUpdate'', [ArgTransform t_l1, ArgHints])]"
    "transformLog (snd (u_applyTransform register_update t_l1 ?s1)) = []"
    by (simp_all add: u_applyTransform_fields emit_def e)
  have hp: "ex_pull_handler () no_hints ?p1 = (Inr ?rp, ?p1)"
    by (simp add: ex_pull_handler_def)
  note T = transform_events_precede_post_event
    [where s = ex_fresh and t = t_l1 and ls = "[ex_passing_listener]" and h = ex_handler
       and mapN = ex_mapNamed and bt = ex_buildTransform and tx = "TransformInput t_l1"
       and opts = None and tid = None and lq = "[]" and q = "()" and hq = ex_pull_handler
       and bq = "\<lambda>qe opts qid. ()" and qe = "()" and qid = None and ly = "[ex_sync_listener]"
       and cu = register_update]
  from T [THEN conjunct1, rule_format, of "[None]" no_hints ?r
            "snd (u_applyTransform register_update t_l1 ?s1)"] n p h
  obtain fr s4 where
    u: "uu_update [ex_passing_listener] ex_mapNamed ex_handler t_l1 ex_fresh = (Inr fr, s4)"
    and pf: "produced fr = produced ?r"
    and es: "emitted s4 =
             emitted (snd (u_applyTransform register_update t_l1 ?s1))
             @ map (\<lambda>T. (''transform'', [ArgTransform T]))
                 (newly_logged (transformLog (snd (u_applyTransform register_update t_l1 ?s1)))
                    (produced ?r))
             @ [(''update'', [ArgTransform t_l1, ArgResponse fr])]"
    and pu: "t_l1 = ex_buildTransform (TransformInput t_l1) None None \<longrightarrow>
              update ex_buildTransform
                (u_enqueueRequest (uu_update [ex_passing_listener] ex_mapNamed ex_handler))
                (TransformInput t_l1) None None ex_fresh =
                (Inr (if (\<exists>ro. (None :: request_options option) = Some ro \<and> fullResponse ro = Some True)
                      then Full fr else Data (data fr)), s4)"
    by blast
  have fr: "fr = ?r"
    using u n p h o by (simp add: uu_update_def Let_def)
  from T [THEN conjunct2, THEN conjunct1, rule_format, of "[]" no_hints ?rp ?p1] p0 hp
  obtain frp s4p where
    up: "uu_pull [] ex_mapNamed ex_pull_handler () ex_fresh = (Inr frp, s4p)"
    and esp: "emitted s4p =
             emitted ?p1
             @ map (\<lambda>T. (''transform'', [ArgTransform T]))
                 (newly_logged (transformLog ?p1) (produced ?rp))
             @ [(''pull'', [ArgQuery (), ArgResponse frp])]"
    by blast
  have frp: "frp = ?rp"
    using up p0 hp by (simp add: uu_pull_def Let_def)
  have sy: "emitted (snd (uu_sync [ex_sync_listener] (u_sync register_update) t_l1 ex_fresh)) =
      emitted ex_fresh @ [(''beforeSync'', [ArgTransform t_l1]), (''transform'', [ArgTransform t_l1]),
       (''sync'', [ArgTransform t_l1])]"
    using T [THEN conjunct2, THEN conjunct2, THEN conjunct2, rule_format, of ex_fresh "([None], ())"] n y0
    by blast
  have 1: "emitted s4 = [(''beforeUpdate'', [ArgTransform t_l1, ArgHints]),
       (''transform'', [ArgTransform t_l1]),
       (''update'', [ArgTransform t_l1, ArgResponse ?r])]"
    using es
    by (simp add: fr produced_def log_contains_def emit_def e u_applyTransform_fields)
  have 2: "emitted s4p = [(''beforePull'', [ArgQuery (), ArgHints]),
       (''transform'', [ArgTransform t_b1]),
       (''pull'', [ArgQuery (), ArgResponse ?rp])]"
    using esp by (simp add: frp produced_def log_contains_def emit_def e)
  from pu b have 3: "snd (update ex_buildTransform
        (u_enqueueRequest (uu_update [ex_passing_listener] ex_mapNamed ex_handler))
        (TransformInput t_l1) None None ex_fresh) = s4"
    by simp
  from n p u fr 1 2 3 up sy show ?thesis by (simp add: e)
qed

text \<open>
  C5 on the example fork: all transforms, coalesced (by a function that changes
  nothing), and the transforms since \<open>l1\<close>, not coalesced.
\<close>

theorem merge_updates_with_one_reduced_transform_witness:
  "sinceTransformId \<lparr>coalesce = None, sinceTransformId = None, transformOptions = None\<rparr> = None
 \<and> allTransforms ex_fork = map Some [t_l1, t_l2]
 \<and> merge (\<lambda>ops. ops) ex_buildTransform
      (u_enqueueRequest (uu_update [] ex_mapNamed ex_handler)) ex_fork
      \<lparr>coalesce = None, sinceTransformId = None, transformOptions = None\<rparr> ex_base
    = update ex_buildTransform (u_enqueueRequest (uu_update [] ex_mapNamed ex_handler))
        (TransformInput \<lparr>id_t = ''generated'', operations = [''one'', ''two''], options = None\<rparr>)
        None None ex_base
 \<and> transformsSince ex_fork ''l1'' = Inr (map Some [t_l2])
 \<and> merge (\<lambda>ops. ops) ex_buildTransform
      (u_enqueueRequest (uu_update [] ex_mapNamed ex_handler)) ex_fork
      \<lparr>coalesce = Some False, sinceTransformId = Some ''l1'', transformOptions = None\<rparr> ex_base
    = update ex_buildTransform (u_enqueueRequest (uu_update [] ex_mapNamed ex_handler))
        (TransformInput \<lparr>id_t = ''generated'', operations = [''two''], options = None\<rparr>)
        None None ex_base"
proof -
  let ?o1 = "\<lparr>coalesce = None, sinceTransformId = None, transformOptions = None\<rparr>"
  let ?o2 = "\<lparr>coalesce = Some False, sinceTransformId = Some ''l1'', transformOptions = None\<rparr>"
  have since: "transformsSince ex_fork ''l1'' = Inr (map Some [t_l2])"
    by (simp add: transformsSince_def log_after_def log_contains_def ex_fork_def)
  have r1: "reducedTransform_of (\<lambda>ops. ops) ex_buildTransform ?o1 [t_l1, t_l2]
            = \<lparr>id_t = ''generated'', operations = [''one'', ''two''], options = None\<rparr>"
    by (simp add: reducedTransform_of_def ex_buildTransform_def t_l1_def t_l2_def)
  have r2: "reducedTransform_of (\<lambda>ops. ops) ex_buildTransform ?o2 [t_l2]
            = \<lparr>id_t = ''generated'', operations = [''two''], options = None\<rparr>"
    by (simp add: reducedTransform_of_def ex_buildTransform_def t_l2_def)
  note A = merge_updates_with_one_reduced_transform
    [of ?o1 ex_fork "[t_l1, t_l2]" "\<lambda>ops. ops" ex_buildTransform
        "u_enqueueRequest (uu_update [] ex_mapNamed ex_handler)" ex_base]
  note B = merge_updates_with_one_reduced_transform
    [of ?o2 ex_fork "[t_l2]" "\<lambda>ops. ops" ex_buildTransform
        "u_enqueueRequest (uu_update [] ex_mapNamed ex_handler)" ex_base]
  from A ex_fork_locals have 1: "merge (\<lambda>ops. ops) ex_buildTransform
      (u_enqueueRequest (uu_update [] ex_mapNamed ex_handler)) ex_fork ?o1 ex_base
    = update ex_buildTransform (u_enqueueRequest (uu_update [] ex_mapNamed ex_handler))
        (TransformInput \<lparr>id_t = ''generated'', operations = [''one'', ''two''], options = None\<rparr>)
        None None ex_base"
    by (simp add: r1)
  from B since have 2: "merge (\<lambda>ops. ops) ex_buildTransform
      (u_enqueueRequest (uu_update [] ex_mapNamed ex_handler)) ex_fork ?o2 ex_base
    = update ex_buildTransform (u_enqueueRequest (uu_update [] ex_mapNamed ex_handler))
        (TransformInput \<lparr>id_t = ''generated'', operations = [''two''], options = None\<rparr>)
        None None ex_base"
    by (simp add: r2)
  from 1 2 since ex_fork_locals show ?thesis by simp
qed

end
